theory Spec2Isabelle
  imports Complex_Main
begin

section \<open>LoanCentral: the ledger and its comment handlers\<close>

text \<open>
  A shallow embedding of \<^verbatim>\<open>loan_central_bot.py\<close>: the two PostgreSQL tables, the five
  comment handlers and one iteration of the comment stream loop.

  Conventions of the embedding.
  \<^item> \<^verbatim>\<open>NUMERIC\<close> columns are rationals: what PostgreSQL computes and compares is
    exact. What Python computes on \<^verbatim>\<open>Decimal\<close> values (the sum and the difference of the
    payment handler) is rounded to the 28 significant digits of the default context, half
    to even. The exponent limits of the context are beyond what the text of a comment can
    hold and are not modelled.
  \<^item> The loan id of \<^verbatim>\<open>$paid_with_id\<close> reaches PostgreSQL as text and is converted to
    the type of the \<^verbatim>\<open>id\<close> column, a 32-bit integer: the conversion fails on a number
    above 2147483647 and on digits that are not ASCII. The range of the counters and of the
    sequence of the \<^verbatim>\<open>SERIAL\<close> column is not modelled.
  \<^item> Timestamps are natural numbers; the successive \<^verbatim>\<open>datetime.now()\<close> readings of one
    handler call are one value.
  \<^item> The outcome of every \<^verbatim>\<open>re.search\<close> is a field of the comment: the regular expressions
    themselves are not interpreted. What the handlers do with the groups
    (\<^verbatim>\<open>.lower()\<close>, \<^verbatim>\<open>.upper()\<close>, \<^verbatim>\<open>Decimal(...)\<close>) is modelled.
  \<^item> A reply is kept as a value with the fields the text is formatted from; the
    \<^verbatim>\<open>:.2f\<close> formatting and the log are not modelled, and \<^verbatim>\<open>comment.reply\<close> is taken
    to deliver.
\<close>

subsection \<open>Strings\<close>

definition lower_char :: "char \<Rightarrow> char" where
  "lower_char c =
     (case map_of (zip ''ABCDEFGHIJKLMNOPQRSTUVWXYZ'' ''abcdefghijklmnopqrstuvwxyz'') c of
        None \<Rightarrow> c | Some d \<Rightarrow> d)"

definition upper_char :: "char \<Rightarrow> char" where
  "upper_char c =
     (case map_of (zip ''abcdefghijklmnopqrstuvwxyz'' ''ABCDEFGHIJKLMNOPQRSTUVWXYZ'') c of
        None \<Rightarrow> c | Some d \<Rightarrow> d)"

text \<open>\<^verbatim>\<open>str.lower()\<close> and \<^verbatim>\<open>str.upper()\<close>, on the ASCII letters.\<close>

definition lower :: "string \<Rightarrow> string" where
  "lower s = map lower_char s"

definition upper :: "string \<Rightarrow> string" where
  "upper s = map upper_char s"

fun starts_with :: "string \<Rightarrow> string \<Rightarrow> bool" where
  "starts_with s [] = True"
| "starts_with [] (p # ps) = False"
| "starts_with (c # cs) (p # ps) = (c = p \<and> starts_with cs ps)"

text \<open>\<^verbatim>\<open>needle in hay\<close> of Python.\<close>

fun str_in :: "string \<Rightarrow> string \<Rightarrow> bool" where
  "str_in needle [] = (needle = [])"
| "str_in needle (c # cs) = (starts_with (c # cs) needle \<or> str_in needle cs)"

subsection \<open>Decimal amounts\<close>

text \<open>
  The text matched by \<^verbatim>\<open>\d+(?:\.\d+)?\<close>: the digits read as one natural number, and the
  number of digits after the point. \<^verbatim>\<open>Decimal(text)\<close> is its exact value.
\<close>

datatype decimal_text = Decimal_Text (coefficient: nat) (fraction_digits: nat)

definition Decimal :: "decimal_text \<Rightarrow> rat" where
  "Decimal t = of_nat (coefficient t) / 10 ^ fraction_digits t"

text \<open>\<^verbatim>\<open>GREATEST(a, b)\<close> of PostgreSQL, on two non-null values.\<close>

definition greatest :: "'a::linorder \<Rightarrow> 'a \<Rightarrow> 'a" where
  "greatest a b = (if a < b then b else a)"

subsection \<open>Arithmetic of \<^verbatim>\<open>Decimal\<close>\<close>

text \<open>
  \<^verbatim>\<open>a + b\<close> and \<^verbatim>\<open>a - b\<close> on \<^verbatim>\<open>Decimal\<close> values give the exact result rounded to
  the precision of the context, 28 significant digits, with \<^verbatim>\<open>ROUND_HALF_EVEN\<close>.
  \<open>adjusted x\<close> is the exponent of the leading digit of a positive \<open>x\<close>; \<open>shift10 x e\<close>
  is \<open>x\<close> times the \<open>e\<close>-th power of ten.
\<close>

fun num_digits :: "nat \<Rightarrow> nat" where
  "num_digits n = (if n < 10 then 1 else Suc (num_digits (n div 10)))"

declare num_digits.simps [simp del]

definition round_half_even :: "rat \<Rightarrow> int" where
  "round_half_even x =
     (let f = \<lfloor>x\<rfloor>; r = x - of_int f
      in if r < 1 / 2 then f else if 1 / 2 < r then f + 1 else if even f then f else f + 1)"

definition shift10 :: "rat \<Rightarrow> int \<Rightarrow> rat" where
  "shift10 x e = (if 0 \<le> e then x * 10 ^ nat e else x / 10 ^ nat (- e))"

definition adjusted :: "rat \<Rightarrow> int" where
  "adjusted x =
     (let j = num_digits (nat \<lfloor>1 / x\<rfloor> + 1)
      in int (num_digits (nat \<lfloor>x * 10 ^ j\<rfloor>)) - 1 - int j)"

definition quantize :: "nat \<Rightarrow> rat \<Rightarrow> rat" where
  "quantize p x =
     (if x = 0 then 0
      else let a = \<bar>x\<bar>;
               e = adjusted a - (int p - 1);
               q = of_int (round_half_even (shift10 a (- e)))
           in sgn x * shift10 q e)"

definition decimal_add :: "rat \<Rightarrow> rat \<Rightarrow> rat" where
  "decimal_add x y = quantize 28 (x + y)"

definition decimal_sub :: "rat \<Rightarrow> rat \<Rightarrow> rat" where
  "decimal_sub x y = quantize 28 (x - y)"

subsection \<open>Text as a 32-bit integer\<close>

text \<open>
  The conversion PostgreSQL makes of a text of digits compared with an \<^verbatim>\<open>INTEGER\<close>
  column: the number, when every character is an ASCII digit and the number is at most
  2147483647; an error otherwise.
\<close>

definition is_ascii_digit :: "char \<Rightarrow> bool" where
  "is_ascii_digit ch \<longleftrightarrow> ch \<in> set ''0123456789''"

definition digit_value :: "char \<Rightarrow> nat" where
  "digit_value ch =
     (case map_of (zip ''0123456789'' [0, 1, 2, 3, 4, 5, 6, 7, 8, 9]) ch of
        None \<Rightarrow> 0 | Some n \<Rightarrow> n)"

definition digits_value :: "string \<Rightarrow> nat" where
  "digits_value s = foldl (\<lambda>n ch. 10 * n + digit_value ch) 0 s"

definition int4_in :: "string \<Rightarrow> nat option" where
  "int4_in s =
     (if s \<noteq> [] \<and> list_all is_ascii_digit s \<and> digits_value s \<le> 2147483647
      then Some (digits_value s) else None)"

subsection \<open>The tables\<close>

datatype loan_status = Active | Confirmed | Partially_Repaid | Repaid | Refunded

text \<open>
  A row of \<^verbatim>\<open>loans\<close>. \<open>db_id\<close> is the \<^verbatim>\<open>id SERIAL PRIMARY KEY\<close> column; \<open>loan_id\<close> is
  the \<^verbatim>\<open>loan_id TEXT UNIQUE\<close> column, kept as the number whose decimal rendering it is.
\<close>

record loan =
  db_id :: nat
  loan_id :: nat
  lender :: string
  borrower :: string
  amount :: rat
  currency :: string
  date_created :: nat
  original_thread :: string
  status :: loan_status
  amount_repaid :: rat
  last_updated :: "nat option"

text \<open>
  A row of \<^verbatim>\<open>users\<close>, keyed by \<^verbatim>\<open>username\<close>. \<open>total_repaid\<close> is the
  \<^verbatim>\<open>amount_repaid\<close> column and \<open>stats_updated\<close> the \<^verbatim>\<open>last_updated\<close> column of this
  table.
\<close>

record user_stats =
  loans_as_borrower :: int
  loans_as_lender :: int
  amount_borrowed :: rat
  amount_lent :: rat
  total_repaid :: rat
  unpaid_loans :: int
  unpaid_amount :: rat
  stats_updated :: "nat option"

record ledger =
  loans :: "loan list"
  users :: "string \<rightharpoonup> user_stats"
  loans_id_seq :: nat

definition empty_ledger :: ledger where
  "empty_ledger = \<lparr>loans = [], users = Map.empty, loans_id_seq = 0\<rparr>"

subsection \<open>Comments, replies and the world\<close>

text \<open>
  What a handler reads of a comment: author, body, the author of the post, the parent's
  author and the permalink of the post, and the outcome of each regular expression search:
  \<^item> \<open>loan_match\<close>: \<^verbatim>\<open>loan_regex\<close> on the body (amount, currency);
  \<^item> \<open>confirm_match\<close>: \<^verbatim>\<open>confirm_regex\<close>, else \<^verbatim>\<open>alt_confirm_regex\<close>, on the first code
    block or the body (name, amount, currency);
  \<^item> \<open>paid_match\<close>: \<^verbatim>\<open>paid_regex\<close> on the first code block or the body (the text of
    the loan id, amount, currency);
  \<^item> \<open>refund_match\<close>: \<^verbatim>\<open>loan_regex\<close> of the refund handler on the parent's body (borrower,
    amount, currency, lender);
  \<^item> \<open>stats_match\<close>: the \<^verbatim>\<open>$stats\<close> expression on the body (name).
\<close>

record comment =
  author :: "string option"
  body :: string
  post_author :: "string option"
  post_permalink :: string
  parent_author :: "string option"
  loan_match :: "(decimal_text \<times> string) option"
  confirm_match :: "(string \<times> decimal_text \<times> string) option"
  paid_match :: "(string \<times> decimal_text \<times> string) option"
  refund_match :: "(string \<times> decimal_text \<times> string \<times> string) option"
  stats_match :: "string option"

text \<open>
  What the outside gives one handler call: whether \<^verbatim>\<open>get_db_connection()\<close> returns a
  connection, \<^verbatim>\<open>int(time.time())\<close> and \<^verbatim>\<open>datetime.now()\<close>.
\<close>

record env =
  db_up :: bool
  epoch_seconds :: nat
  now :: nat

datatype reply =
    Offer_Reply string rat string string
  | Confirm_Reply string rat string string nat
  | Loan_Not_Found string
  | Currency_Mismatch string string
  | Paid_Reply string string rat string loan loan rat
  | Only_Lender
  | Refund_Not_Found string rat string
  | Refund_Reply string string rat string
  | Stats_Reply string

datatype mod_message = Loan_Refunded string string rat string

datatype error = AttributeError

record world =
  db :: ledger
  replies :: "reply list"
  mod_mail :: "mod_message list"
  reconnects :: nat

definition init_world :: world where
  "init_world = \<lparr>db = empty_ledger, replies = [], mod_mail = [], reconnects = 0\<rparr>"

definition send_reply :: "reply \<Rightarrow> world \<Rightarrow> world" where
  "send_reply r w = w\<lparr>replies := replies w @ [r]\<rparr>"

text \<open>The configuration read from the environment: \<^verbatim>\<open>REDDIT_USERNAME\<close>.\<close>

record config =
  bot_username :: string

subsection \<open>The statements of \<^verbatim>\<open>process_confirm_command\<close>\<close>

definition generate_loan_id :: "env \<Rightarrow> nat" where
  "generate_loan_id e = epoch_seconds e"

datatype db_error = Unique_Violation | Data_Error

text \<open>
  \<^verbatim>\<open>INSERT INTO loans (...) VALUES (...) RETURNING id\<close>. The sequence of the
  \<^verbatim>\<open>SERIAL\<close> column gives the next id; \<^verbatim>\<open>amount_repaid\<close> takes its default 0 and
  \<^verbatim>\<open>last_updated\<close> is null. The statement fails when the \<^verbatim>\<open>UNIQUE\<close> column
  \<^verbatim>\<open>loan_id\<close> or the primary key already holds the value.
\<close>

definition insert_loan ::
  "nat \<Rightarrow> string \<Rightarrow> string \<Rightarrow> rat \<Rightarrow> string \<Rightarrow> nat \<Rightarrow> string \<Rightarrow> loan_status \<Rightarrow> ledger
     \<Rightarrow> db_error + ledger \<times> nat" where
  "insert_loan lid lender_name borrower_name amt cur created thread_url st d =
     (let new_id = Suc (loans_id_seq d) in
      if list_ex (\<lambda>l. loan_id l = lid \<or> db_id l = new_id) (loans d) then Inl Unique_Violation
      else Inr (d\<lparr>loans := loans d @
                   [\<lparr>db_id = new_id, loan_id = lid, lender = lender_name,
                     borrower = borrower_name, amount = amt, currency = cur,
                     date_created = created, original_thread = thread_url, status = st,
                     amount_repaid = 0, last_updated = None\<rparr>],
                  loans_id_seq := new_id\<rparr>, new_id))"

text \<open>
  What a rollback leaves of a failed \<^verbatim>\<open>INSERT\<close>: the tables as they were, the sequence
  advanced (a sequence is not transactional).
\<close>

definition rollback_insert :: "ledger \<Rightarrow> ledger" where
  "rollback_insert d = d\<lparr>loans_id_seq := Suc (loans_id_seq d)\<rparr>"

text \<open>
  \<^verbatim>\<open>INSERT INTO users (username, loans_as_lender, amount_lent, last_updated) VALUES (u, 1, a, t)
  ON CONFLICT (username) DO UPDATE SET loans_as_lender = users.loans_as_lender + 1, ...\<close>:
  the other columns of a new row take their default 0.
\<close>

definition upsert_lender :: "string \<Rightarrow> rat \<Rightarrow> nat \<Rightarrow> ledger \<Rightarrow> ledger" where
  "upsert_lender u amt t d =
     (case users d u of
        None \<Rightarrow>
          d\<lparr>users := (users d)(u \<mapsto>
               \<lparr>loans_as_borrower = 0, loans_as_lender = 1, amount_borrowed = 0,
                amount_lent = amt, total_repaid = 0, unpaid_loans = 0, unpaid_amount = 0,
                stats_updated = Some t\<rparr>)\<rparr>
      | Some r \<Rightarrow>
          d\<lparr>users := (users d)(u \<mapsto>
               r\<lparr>loans_as_lender := loans_as_lender r + 1,
                 amount_lent := amount_lent r + amt,
                 stats_updated := Some t\<rparr>)\<rparr>)"

definition upsert_borrower :: "string \<Rightarrow> rat \<Rightarrow> nat \<Rightarrow> ledger \<Rightarrow> ledger" where
  "upsert_borrower u amt t d =
     (case users d u of
        None \<Rightarrow>
          d\<lparr>users := (users d)(u \<mapsto>
               \<lparr>loans_as_borrower = 1, loans_as_lender = 0, amount_borrowed = amt,
                amount_lent = 0, total_repaid = 0, unpaid_loans = 0, unpaid_amount = 0,
                stats_updated = Some t\<rparr>)\<rparr>
      | Some r \<Rightarrow>
          d\<lparr>users := (users d)(u \<mapsto>
               r\<lparr>loans_as_borrower := loans_as_borrower r + 1,
                 amount_borrowed := amount_borrowed r + amt,
                 stats_updated := Some t\<rparr>)\<rparr>)"

subsection \<open>The statements of \<^verbatim>\<open>process_paid_command\<close>\<close>

text \<open>The first row with the given id and lender.\<close>

definition loan_of_lender :: "nat \<Rightarrow> string \<Rightarrow> ledger \<Rightarrow> loan option" where
  "loan_of_lender lid lender_name d =
     find (\<lambda>l. db_id l = lid \<and> lender l = lender_name) (loans d)"

text \<open>
  \<^verbatim>\<open>SELECT ... FROM loans WHERE id = %s AND lender = %s\<close>, then \<^verbatim>\<open>fetchone()\<close>. The
  first parameter is the text of the loan id: the statement fails when the text is no
  32-bit integer.
\<close>

definition select_loan_for_payment ::
  "string \<Rightarrow> string \<Rightarrow> ledger \<Rightarrow> db_error + loan option" where
  "select_loan_for_payment id_text lender_name d =
     (case int4_in id_text of
        None \<Rightarrow> Inl Data_Error
      | Some lid \<Rightarrow> Inr (loan_of_lender lid lender_name d))"

text \<open>
  \<^verbatim>\<open>SELECT ... FROM loans WHERE id = %s\<close>, then \<^verbatim>\<open>fetchone()\<close>. This statement and
  the \<^verbatim>\<open>UPDATE\<close> of the loan get the same text of the loan id after the first
  \<^verbatim>\<open>SELECT\<close> has converted it: they take the number.
\<close>

definition select_loan_by_id :: "nat \<Rightarrow> ledger \<Rightarrow> loan option" where
  "select_loan_by_id lid d = find (\<lambda>l. db_id l = lid) (loans d)"

text \<open>\<^verbatim>\<open>UPDATE loans SET amount_repaid = %s, status = %s, last_updated = %s WHERE id = %s\<close>.\<close>

definition update_loan_payment :: "nat \<Rightarrow> rat \<Rightarrow> loan_status \<Rightarrow> nat \<Rightarrow> ledger \<Rightarrow> ledger" where
  "update_loan_payment lid new_repaid new_status t d =
     d\<lparr>loans := map (\<lambda>l. if db_id l = lid
                           then l\<lparr>amount_repaid := new_repaid, status := new_status,
                                  last_updated := Some t\<rparr>
                           else l) (loans d)\<rparr>"

text \<open>\<^verbatim>\<open>UPDATE users SET ... WHERE username = %s\<close>: no row, no change.\<close>

definition update_user :: "string \<Rightarrow> (user_stats \<Rightarrow> user_stats) \<Rightarrow> ledger \<Rightarrow> ledger" where
  "update_user u f d =
     (case users d u of
        None \<Rightarrow> d
      | Some r \<Rightarrow> d\<lparr>users := (users d)(u \<mapsto> f r)\<rparr>)"

text \<open>\<^verbatim>\<open>SET amount_repaid = amount_repaid + %s, last_updated = %s\<close>.\<close>

definition add_repaid :: "rat \<Rightarrow> nat \<Rightarrow> user_stats \<Rightarrow> user_stats" where
  "add_repaid amount_paid t r =
     r\<lparr>total_repaid := total_repaid r + amount_paid, stats_updated := Some t\<rparr>"

text \<open>
  \<^verbatim>\<open>SET unpaid_loans = GREATEST(unpaid_loans - 1, 0),
  unpaid_amount = GREATEST(unpaid_amount - %s, 0), last_updated = %s\<close>.
\<close>

definition settle_unpaid :: "rat \<Rightarrow> nat \<Rightarrow> user_stats \<Rightarrow> user_stats" where
  "settle_unpaid loan_amount t r =
     r\<lparr>unpaid_loans := greatest (unpaid_loans r - 1) 0,
       unpaid_amount := greatest (unpaid_amount r - loan_amount) 0,
       stats_updated := Some t\<rparr>"

subsection \<open>The statements of \<^verbatim>\<open>process_refund_command\<close>\<close>

text \<open>
  \<^verbatim>\<open>ORDER BY date_created DESC LIMIT 1\<close> over the matching rows: the row with the
  greatest \<open>date_created\<close>. PostgreSQL leaves the order of rows with equal timestamps
  open; here the earlier row of the table stays.
\<close>

fun most_recent :: "loan \<Rightarrow> loan list \<Rightarrow> loan" where
  "most_recent best [] = best"
| "most_recent best (l # ls) =
     most_recent (if date_created best < date_created l then l else best) ls"

text \<open>
  \<^verbatim>\<open>SELECT id FROM loans WHERE lender = %s AND borrower = %s AND amount = %s AND currency = %s
  ORDER BY date_created DESC LIMIT 1\<close>, then \<^verbatim>\<open>fetchone()\<close>.
\<close>

definition select_loan_for_refund ::
  "string \<Rightarrow> string \<Rightarrow> rat \<Rightarrow> string \<Rightarrow> ledger \<Rightarrow> nat option" where
  "select_loan_for_refund lender_name borrower_name amt cur d =
     (case filter (\<lambda>l. lender l = lender_name \<and> borrower l = borrower_name \<and>
                        amount l = amt \<and> currency l = cur) (loans d) of
        [] \<Rightarrow> None
      | l # ls \<Rightarrow> Some (db_id (most_recent l ls)))"

text \<open>\<^verbatim>\<open>UPDATE loans SET status = 'refunded', last_updated = %s WHERE id = %s\<close>.\<close>

definition update_loan_refunded :: "nat \<Rightarrow> nat \<Rightarrow> ledger \<Rightarrow> ledger" where
  "update_loan_refunded lid t d =
     d\<lparr>loans := map (\<lambda>l. if db_id l = lid
                           then l\<lparr>status := Refunded, last_updated := Some t\<rparr>
                           else l) (loans d)\<rparr>"

text \<open>
  \<^verbatim>\<open>SET loans_as_lender = GREATEST(loans_as_lender - 1, 0),
  amount_lent = GREATEST(amount_lent - %s, 0), last_updated = %s\<close>.
\<close>

definition refund_lender :: "rat \<Rightarrow> nat \<Rightarrow> user_stats \<Rightarrow> user_stats" where
  "refund_lender amt t r =
     r\<lparr>loans_as_lender := greatest (loans_as_lender r - 1) 0,
       amount_lent := greatest (amount_lent r - amt) 0,
       stats_updated := Some t\<rparr>"

text \<open>
  \<^verbatim>\<open>SET loans_as_borrower = GREATEST(loans_as_borrower - 1, 0),
  amount_borrowed = GREATEST(amount_borrowed - %s, 0), last_updated = %s\<close>.
\<close>

definition refund_borrower :: "rat \<Rightarrow> nat \<Rightarrow> user_stats \<Rightarrow> user_stats" where
  "refund_borrower amt t r =
     r\<lparr>loans_as_borrower := greatest (loans_as_borrower r - 1) 0,
       amount_borrowed := greatest (amount_borrowed r - amt) 0,
       stats_updated := Some t\<rparr>"

subsection \<open>The handlers\<close>

text \<open>
  Every handler returns the world it leaves, or the exception that leaves it: reading
  \<^verbatim>\<open>.name\<close> of an author that is \<^verbatim>\<open>None\<close> raises \<^verbatim>\<open>AttributeError\<close> outside every
  \<^verbatim>\<open>try\<close>, before the handler has done anything.
\<close>

definition process_loan_command :: "comment \<Rightarrow> world \<Rightarrow> error + world" where
  "process_loan_command c w =
     (case loan_match c of
        None \<Rightarrow> Inr w
      | Some (amount_text, currency_text) \<Rightarrow>
          (case author c of
             None \<Rightarrow> Inl AttributeError
           | Some author_name \<Rightarrow>
               (case post_author c of
                  None \<Rightarrow> Inl AttributeError
                | Some post_author_name \<Rightarrow>
                    let lender_name = lower author_name;
                        borrower_name = lower post_author_name;
                        amt = Decimal amount_text;
                        cur = upper currency_text
                    in if borrower_name = lender_name then Inr w
                       else Inr (send_reply (Offer_Reply lender_name amt cur borrower_name) w))))"

definition process_confirm_command :: "env \<Rightarrow> comment \<Rightarrow> world \<Rightarrow> error + world" where
  "process_confirm_command e c w =
     (case confirm_match c of
        None \<Rightarrow> Inr w
      | Some (name, amount_text, currency_text) \<Rightarrow>
          (case author c of
             None \<Rightarrow> Inl AttributeError
           | Some author_name \<Rightarrow>
               let borrower_name = lower author_name;
                   lender_name = lower name;
                   amt = Decimal amount_text;
                   cur = upper currency_text;
                   lid = generate_loan_id e;
                   thread_url = ''https://www.reddit.com'' @ post_permalink c
               in if \<not> db_up e then Inr w
                  else (case insert_loan lid lender_name borrower_name amt cur (now e)
                               thread_url Confirmed (db w) of
                          Inl err \<Rightarrow> Inr (w\<lparr>db := rollback_insert (db w)\<rparr>)
                        | Inr (d1, new_id) \<Rightarrow>
                            let d2 = upsert_lender lender_name amt (now e) d1;
                                d3 = upsert_borrower borrower_name amt (now e) d2
                            in Inr (send_reply
                                      (Confirm_Reply borrower_name amt cur lender_name new_id)
                                      (w\<lparr>db := d3\<rparr>)))))"

text \<open>
  An error of the first \<^verbatim>\<open>SELECT\<close> is caught by the handler: rollback, nothing was
  written, no reply. The report is formatted after the commit, from the two snapshots
  \<open>loan_before\<close> and \<open>loan_after\<close>: were one of them missing, the \<^verbatim>\<open>TypeError\<close>
  would be caught as well, the committed change would stay and no reply would be sent.
\<close>

definition process_paid_command :: "env \<Rightarrow> comment \<Rightarrow> world \<Rightarrow> error + world" where
  "process_paid_command e c w =
     (case paid_match c of
        None \<Rightarrow> Inr w
      | Some (loan_id_text, amount_text, currency_text) \<Rightarrow>
          (case author c of
             None \<Rightarrow> Inl AttributeError
           | Some author_name \<Rightarrow>
               let lender_name = lower author_name;
                   amount_paid = Decimal amount_text;
                   cur = upper currency_text
               in if \<not> db_up e then Inr w
                  else (case select_loan_for_payment loan_id_text lender_name (db w) of
                          Inl err \<Rightarrow> Inr w
                        | Inr None \<Rightarrow> Inr (send_reply (Loan_Not_Found loan_id_text) w)
                        | Inr (Some row) \<Rightarrow>
                            if currency row \<noteq> cur
                            then Inr (send_reply (Currency_Mismatch (currency row) cur) w)
                            else
                              let lid = db_id row;
                                  loan_before = select_loan_by_id lid (db w);
                                  new_repaid_amount = decimal_add (amount_repaid row) amount_paid;
                                  new_status = (if amount row \<le> new_repaid_amount
                                                then Repaid else Partially_Repaid);
                                  d1 = update_loan_payment lid new_repaid_amount new_status
                                         (now e) (db w);
                                  d2 = update_user (borrower row)
                                         (add_repaid amount_paid (now e)) d1;
                                  d3 = (if new_status = Repaid
                                        then update_user (borrower row)
                                               (settle_unpaid (amount row) (now e)) d2
                                        else d2);
                                  loan_after = select_loan_by_id lid d3;
                                  remaining = decimal_sub (amount row) new_repaid_amount
                              in (case (loan_before, loan_after) of
                                    (Some before_row, Some after_row) \<Rightarrow>
                                      Inr (send_reply
                                             (Paid_Reply (borrower row) lender_name amount_paid cur
                                                before_row after_row
                                                (if 0 < remaining then remaining else 0))
                                             (w\<lparr>db := d3\<rparr>))
                                  | _ \<Rightarrow> Inr (w\<lparr>db := d3\<rparr>)))))"

definition process_refund_command :: "config \<Rightarrow> env \<Rightarrow> comment \<Rightarrow> world \<Rightarrow> error + world" where
  "process_refund_command cfg e c w =
     (case parent_author c of
        None \<Rightarrow> Inr w
      | Some parent_name \<Rightarrow>
          if lower parent_name \<noteq> lower (bot_username cfg) then Inr w
          else if \<not> str_in ''refunded'' (lower (body c)) then Inr w
          else
            (case refund_match c of
               None \<Rightarrow> Inr w
             | Some (borrower_text, amount_text, currency_text, lender_text) \<Rightarrow>
                 let borrower_name = lower borrower_text;
                     amt = Decimal amount_text;
                     cur = currency_text;
                     lender_name = lower lender_text
                 in (case author c of
                       None \<Rightarrow> Inl AttributeError
                     | Some author_name \<Rightarrow>
                         if lower author_name \<noteq> lender_name then Inr (send_reply Only_Lender w)
                         else if \<not> db_up e then Inr w
                         else
                           (case select_loan_for_refund lender_name borrower_name amt cur
                                   (db w) of
                              None \<Rightarrow>
                                Inr (send_reply (Refund_Not_Found borrower_name amt cur) w)
                            | Some lid \<Rightarrow>
                                let d1 = update_loan_refunded lid (now e) (db w);
                                    d2 = update_user lender_name
                                           (refund_lender amt (now e)) d1;
                                    d3 = update_user borrower_name
                                           (refund_borrower amt (now e)) d2;
                                    w1 = send_reply
                                           (Refund_Reply lender_name borrower_name amt cur)
                                           (w\<lparr>db := d3\<rparr>)
                                in Inr (w1\<lparr>mod_mail := mod_mail w1 @
                                          [Loan_Refunded lender_name borrower_name amt
                                             cur]\<rparr>)))))"

text \<open>
  The statistics are read from Reddit, not from the ledger; the reply (the report, or one
  of its two short forms) is kept as one value.
\<close>

definition process_stats_command :: "comment \<Rightarrow> world \<Rightarrow> error + world" where
  "process_stats_command c w =
     (case stats_match c of
        None \<Rightarrow> Inr w
      | Some name \<Rightarrow> Inr (send_reply (Stats_Reply (lower name)) w))"

subsection \<open>One iteration of \<^verbatim>\<open>comment_monitor\<close>\<close>

text \<open>
  An exception that leaves a handler ends the \<^verbatim>\<open>for\<close> loop over the stream: it is
  logged, and the stream is opened again after a minute.
\<close>

definition after_handler :: "world \<Rightarrow> error + world \<Rightarrow> world" where
  "after_handler w r =
     (case r of
        Inl err \<Rightarrow> w\<lparr>reconnects := Suc (reconnects w)\<rparr>
      | Inr w' \<Rightarrow> w')"

definition comment_monitor_step :: "config \<Rightarrow> env \<Rightarrow> comment \<Rightarrow> world \<Rightarrow> world" where
  "comment_monitor_step cfg e c w =
     (case author c of
        None \<Rightarrow> w
      | Some author_name \<Rightarrow>
          if lower author_name = lower (bot_username cfg) then w
          else
            let body_lower = lower (body c)
            in if str_in ''$loan'' body_lower then
                 after_handler w (process_loan_command c w)
               else if str_in ''$confirm'' body_lower then
                 after_handler w (process_confirm_command e c w)
               else if str_in ''$paid_with_id'' body_lower then
                 after_handler w (process_paid_command e c w)
               else if str_in ''refunded'' body_lower then
                 after_handler w (process_refund_command cfg e c w)
               else if str_in ''$stats'' body_lower then
                 after_handler w (process_stats_command c w)
               else w)"

text \<open>
  The worlds the bot can be in: it starts on empty tables, and every comment of the stream
  is one step, whatever the comment and whatever the outside gives.
\<close>

inductive reachable :: "config \<Rightarrow> world \<Rightarrow> bool" for cfg :: config where
  reachable_init: "reachable cfg init_world"
| reachable_step: "reachable cfg w \<Longrightarrow> reachable cfg (comment_monitor_step cfg e c w)"

subsection \<open>The command precedence, as the specification words it\<close>

text \<open>
  The specification names five commands and an order of precedence among their keyword
  markers; the first marker of that order found in the lower-cased text selects the
  command.
\<close>

datatype handler = Offer | Confirm | Paid | Refund | Stats_Query

fun marker :: "handler \<Rightarrow> string" where
  "marker Offer = ''$loan''"
| "marker Confirm = ''$confirm''"
| "marker Paid = ''$paid_with_id''"
| "marker Refund = ''refunded''"
| "marker Stats_Query = ''$stats''"

definition precedence :: "handler list" where
  "precedence = [Offer, Confirm, Paid, Refund, Stats_Query]"

definition first_match :: "string \<Rightarrow> handler option" where
  "first_match text = find (\<lambda>h. str_in (marker h) (lower text)) precedence"

fun run_handler :: "handler \<Rightarrow> config \<Rightarrow> env \<Rightarrow> comment \<Rightarrow> world \<Rightarrow> error + world" where
  "run_handler Offer cfg e c w = process_loan_command c w"
| "run_handler Confirm cfg e c w = process_confirm_command e c w"
| "run_handler Paid cfg e c w = process_paid_command e c w"
| "run_handler Refund cfg e c w = process_refund_command cfg e c w"
| "run_handler Stats_Query cfg e c w = process_stats_command c w"

subsection \<open>The ledger after a payment\<close>

text \<open>
  The three \<^verbatim>\<open>UPDATE\<close> statements of an accepted payment, in the order of the handler.
\<close>

definition ledger_after_payment :: "nat \<Rightarrow> loan \<Rightarrow> rat \<Rightarrow> nat \<Rightarrow> ledger \<Rightarrow> ledger" where
  "ledger_after_payment lid row paid t d =
     (let new_repaid = decimal_add (amount_repaid row) paid;
          new_status = (if amount row \<le> new_repaid then Repaid else Partially_Repaid);
          d2 = update_user (borrower row) (add_repaid paid t)
                 (update_loan_payment lid new_repaid new_status t d)
      in if new_status = Repaid
         then update_user (borrower row) (settle_unpaid (amount row) t) d2 else d2)"

subsection \<open>Reading the statistics\<close>

text \<open>An aggregate of a user, 0 while the user has no row.\<close>

definition stat :: "(user_stats \<Rightarrow> 'a::zero) \<Rightarrow> ledger \<Rightarrow> string \<Rightarrow> 'a" where
  "stat f d u = (case users d u of None \<Rightarrow> 0 | Some r \<Rightarrow> f r)"

definition nonneg_stats :: "user_stats \<Rightarrow> bool" where
  "nonneg_stats r \<longleftrightarrow>
     0 \<le> loans_as_borrower r \<and> 0 \<le> loans_as_lender r \<and> 0 \<le> amount_borrowed r \<and>
     0 \<le> amount_lent r \<and> 0 \<le> total_repaid r \<and> 0 \<le> unpaid_loans r \<and>
     0 \<le> unpaid_amount r"

definition no_unpaid :: "user_stats \<Rightarrow> bool" where
  "no_unpaid r \<longleftrightarrow> unpaid_loans r = 0 \<and> unpaid_amount r = 0"

text \<open>
  The invariant of the ledger behind the claims on the statistics: no principal is
  negative, and every row of \<^verbatim>\<open>users\<close> has non-negative fields and nothing unpaid.
\<close>

definition ledger_ok :: "ledger \<Rightarrow> bool" where
  "ledger_ok d \<longleftrightarrow>
     (\<forall>l \<in> set (loans d). 0 \<le> amount l) \<and>
     (\<forall>u r. users d u = Some r \<longrightarrow> nonneg_stats r \<and> no_unpaid r)"

subsection \<open>The ledger after a refund\<close>

text \<open>
  The three \<^verbatim>\<open>UPDATE\<close> statements of an accepted refund, in the order of the handler.
\<close>

definition ledger_after_refund ::
  "nat \<Rightarrow> string \<Rightarrow> string \<Rightarrow> rat \<Rightarrow> nat \<Rightarrow> ledger \<Rightarrow> ledger" where
  "ledger_after_refund lid lender_name borrower_name amt t d =
     update_user borrower_name (refund_borrower amt t)
       (update_user lender_name (refund_lender amt t)
          (update_loan_refunded lid t d))"

text \<open>The replies that start with \<^verbatim>\<open>Error:\<close>, and the refusal of a refund by another user.\<close>

fun is_error_reply :: "reply \<Rightarrow> bool" where
  "is_error_reply (Loan_Not_Found lid) = True"
| "is_error_reply (Currency_Mismatch loan_currency cur) = True"
| "is_error_reply Only_Lender = True"
| "is_error_reply (Refund_Not_Found borrower_name amt cur) = True"
| "is_error_reply r = False"

subsection \<open>Sample comments\<close>

definition sample_config :: config where
  "sample_config = \<lparr>bot_username = ''LoanCentralBot''\<rparr>"

definition at_time :: "nat \<Rightarrow> env" where
  "at_time t = \<lparr>db_up = True, epoch_seconds = t, now = t\<rparr>"

definition blank_comment :: comment where
  "blank_comment =
     \<lparr>author = None, body = [], post_author = None, post_permalink = ''/r/borrow/1'',
      parent_author = None, loan_match = None, confirm_match = None, paid_match = None,
      refund_match = None, stats_match = None\<rparr>"

text \<open>Bob confirms 50.00 USD received from Alice, on his own post.\<close>

definition bob_confirms :: comment where
  "bob_confirms =
     blank_comment\<lparr>author := Some ''Bob'', post_author := Some ''Bob'',
       body := ''$confirm /u/Alice 50.00 USD'',
       confirm_match := Some (''Alice'', Decimal_Text 5000 2, ''USD'')\<rparr>"

text \<open>Alice confirms a loan from herself.\<close>

definition alice_confirms_herself :: comment where
  "alice_confirms_herself =
     blank_comment\<lparr>author := Some ''Alice'', post_author := Some ''Alice'',
       body := ''$confirm /u/alice 50.00 USD'',
       confirm_match := Some (''alice'', Decimal_Text 5000 2, ''USD'')\<rparr>"

text \<open>Alice, the lender, reports a payment: the text of the loan id, the cents, the currency.\<close>

definition alice_paid :: "string \<Rightarrow> nat \<Rightarrow> string \<Rightarrow> comment" where
  "alice_paid loan_id_text cents cur =
     blank_comment\<lparr>author := Some ''Alice'', post_author := Some ''Bob'',
       body := ''$paid_with_id'',
       paid_match := Some (loan_id_text, Decimal_Text cents 2, cur)\<rparr>"

text \<open>
  A loan of 1.00000000000000000000000000001 USD, thirty significant digits: Bob's
  confirmation and Alice's report of the whole amount paid.
\<close>

definition fine_amount :: decimal_text where
  "fine_amount = Decimal_Text 100000000000000000000000000001 29"

definition bob_confirms_fine :: comment where
  "bob_confirms_fine =
     blank_comment\<lparr>author := Some ''Bob'', post_author := Some ''Bob'',
       body := ''$confirm /u/Alice 1.00000000000000000000000000001 USD'',
       confirm_match := Some (''Alice'', fine_amount, ''USD'')\<rparr>"

definition alice_paid_fine :: comment where
  "alice_paid_fine =
     blank_comment\<lparr>author := Some ''Alice'', post_author := Some ''Bob'',
       body := ''$paid_with_id 1 1.00000000000000000000000000001 USD'',
       paid_match := Some (''1'', fine_amount, ''USD'')\<rparr>"

text \<open>Alice answers ``Refunded'' to the confirmation the bot wrote for Bob's loan.\<close>

definition alice_refunds :: comment where
  "alice_refunds =
     blank_comment\<lparr>author := Some ''Alice'', post_author := Some ''Bob'',
       body := ''Refunded'', parent_author := Some ''LoanCentralBot'',
       refund_match := Some (''bob'', Decimal_Text 5000 2, ''USD'', ''alice'')\<rparr>"

text \<open>Offers: Alice on Bob's post, Bob on his own post, Alice on a post whose author is gone.\<close>

definition alice_offers :: comment where
  "alice_offers =
     blank_comment\<lparr>author := Some ''Alice'', post_author := Some ''Bob'',
       body := ''$loan 50 usd'', loan_match := Some (Decimal_Text 50 0, ''usd'')\<rparr>"

definition bob_offers_himself :: comment where
  "bob_offers_himself =
     blank_comment\<lparr>author := Some ''bob'', post_author := Some ''Bob'',
       body := ''$loan 50 usd'', loan_match := Some (Decimal_Text 50 0, ''usd'')\<rparr>"

definition alice_offers_nobody :: comment where
  "alice_offers_nobody =
     blank_comment\<lparr>author := Some ''Alice'', post_author := None,
       body := ''$loan 50 usd'', loan_match := Some (Decimal_Text 50 0, ''usd'')\<rparr>"

text \<open>A confirmation that also quotes the offer.\<close>

definition bob_confirms_quoting_offer :: comment where
  "bob_confirms_quoting_offer =
     bob_confirms\<lparr>body := ''$confirm /u/Alice 50.00 USD (re: $LOAN)''\<rparr>"

text \<open>Bob confirms a second loan from Alice, of 30.00 USD.\<close>

definition bob_confirms_again :: comment where
  "bob_confirms_again =
     blank_comment\<lparr>author := Some ''Bob'', post_author := Some ''Bob'',
       body := ''$confirm /u/Alice 30.00 USD'',
       confirm_match := Some (''Alice'', Decimal_Text 3000 2, ''USD'')\<rparr>"

text \<open>The row of a user whose loans have all been refunded.\<close>

definition zero_stats :: "nat \<Rightarrow> user_stats" where
  "zero_stats t =
     \<lparr>loans_as_borrower = 0, loans_as_lender = 0, amount_borrowed = 0, amount_lent = 0,
      total_repaid = 0, unpaid_loans = 0, unpaid_amount = 0, stats_updated = Some t\<rparr>"

subsection \<open>Sample worlds\<close>

definition world_confirmed :: world where
  "world_confirmed = comment_monitor_step sample_config (at_time 100) bob_confirms init_world"

definition world_repaid :: world where
  "world_repaid =
     comment_monitor_step sample_config (at_time 200) (alice_paid ''1'' 5000 ''USD'') world_confirmed"

definition world_refunded :: world where
  "world_refunded =
     comment_monitor_step sample_config (at_time 200) alice_refunds world_confirmed"

definition world_two_loans :: world where
  "world_two_loans =
     comment_monitor_step sample_config (at_time 150) bob_confirms_again world_confirmed"

definition world_fine :: world where
  "world_fine = comment_monitor_step sample_config (at_time 100) bob_confirms_fine init_world"

section \<open>Evaluating the model\<close>

lemmas string_eval = lower_def lower_char_def upper_def upper_char_def

lemmas sample_defs = sample_config_def at_time_def blank_comment_def bob_confirms_def
  bob_confirms_again_def bob_confirms_fine_def alice_paid_fine_def
  alice_confirms_herself_def alice_paid_def alice_refunds_def alice_offers_def
  bob_offers_himself_def alice_offers_nobody_def bob_confirms_quoting_offer_def

lemmas sql_defs = insert_loan_def rollback_insert_def upsert_lender_def upsert_borrower_def
  select_loan_for_payment_def loan_of_lender_def select_loan_by_id_def update_loan_payment_def
  update_user_def add_repaid_def settle_unpaid_def select_loan_for_refund_def
  update_loan_refunded_def refund_lender_def refund_borrower_def generate_loan_id_def
  greatest_def send_reply_def

lemmas statement_defs = sql_defs Decimal_def

lemmas handler_defs = process_loan_command_def process_confirm_command_def
  process_paid_command_def process_refund_command_def process_stats_command_def
  after_handler_def comment_monitor_step_def

text \<open>The conversion of some loan ids.\<close>

lemma int4_samples:
  "int4_in ''1'' = Some 1" "int4_in ''9'' = Some 9" "int4_in ''3000000000'' = None"
  by (simp_all add: int4_in_def is_ascii_digit_def digits_value_def digit_value_def)

text \<open>
  Sums and differences of \<^verbatim>\<open>Decimal\<close> values, evaluated through the parts of
  \<open>quantize\<close>: the exponent of the leading digit, the rounded digits, the result.
\<close>

lemma floor_numeral_div: "\<lfloor>numeral a / numeral b :: rat\<rfloor> = numeral a div numeral b"
  using floor_divide_of_int_eq [of "numeral a" "numeral b", where ?'a = rat] by simp

lemma floor_one_div_numeral: "\<lfloor>1 / numeral b :: rat\<rfloor> = 1 div numeral b"
  using floor_divide_of_int_eq [of 1 "numeral b", where ?'a = rat] by simp

lemmas adjusted_eval = adjusted_def Let_def num_digits.simps floor_numeral_div
  floor_one_div_numeral

lemmas round_eval = round_half_even_def Let_def floor_numeral_div

lemma quantizeI:
  assumes "x \<noteq> 0" and "adjusted \<bar>x\<bar> = m"
    and "round_half_even (shift10 \<bar>x\<bar> (- (m - (int p - 1)))) = q"
    and "sgn x * shift10 (of_int q) (m - (int p - 1)) = y"
  shows "quantize p x = y"
  using assms by (simp add: quantize_def Let_def)

lemma decimal_add_0_50: "decimal_add 0 50 = 50"
  unfolding decimal_add_def
proof (rule quantizeI [where m = 1 and q = "5 * 10 ^ 27"])
  show "adjusted \<bar>0 + 50\<bar> = 1" by (simp add: adjusted_eval)
  show "round_half_even (shift10 \<bar>0 + 50\<bar> (- (1 - (int 28 - 1)))) = 5 * 10 ^ 27"
    by (simp add: shift10_def round_eval)
qed (simp_all add: shift10_def)

lemma decimal_add_50_50: "decimal_add 50 50 = 100"
  unfolding decimal_add_def
proof (rule quantizeI [where m = 2 and q = "10 ^ 27"])
  show "adjusted \<bar>50 + 50\<bar> = 2" by (simp add: adjusted_eval)
  show "round_half_even (shift10 \<bar>50 + 50\<bar> (- (2 - (int 28 - 1)))) = 10 ^ 27"
    by (simp add: shift10_def round_eval)
qed (simp_all add: shift10_def)

lemma decimal_sub_50_100: "decimal_sub 50 100 = - 50"
  unfolding decimal_sub_def
proof (rule quantizeI [where m = 1 and q = "5 * 10 ^ 27"])
  show "adjusted \<bar>50 - 100\<bar> = 1" by (simp add: adjusted_eval)
  show "round_half_even (shift10 \<bar>50 - 100\<bar> (- (1 - (int 28 - 1)))) = 5 * 10 ^ 27"
    by (simp add: shift10_def round_eval)
qed (simp_all add: shift10_def)

lemma decimal_sub_50_50: "decimal_sub 50 50 = 0"
  by (simp add: decimal_sub_def quantize_def)

lemmas decimal_samples = decimal_add_0_50 decimal_add_50_50 decimal_sub_50_100
  decimal_sub_50_50

text \<open>
  The sum of 0 and 1.00000000000000000000000000001 has thirty significant digits: it is
  rounded to 1. The difference of the two is exact.
\<close>

lemma Decimal_fine: "Decimal fine_amount = 100000000000000000000000000001 / 10 ^ 29"
  by (simp add: Decimal_def fine_amount_def)

lemma decimal_add_fine: "decimal_add 0 (Decimal fine_amount) = 1"
  unfolding decimal_add_def Decimal_fine
proof (rule quantizeI [where m = 0 and q = "10 ^ 27"])
  show "adjusted \<bar>0 + 100000000000000000000000000001 / 10 ^ 29\<bar> = 0"
    by (simp add: adjusted_eval)
  show "round_half_even (shift10 \<bar>0 + 100000000000000000000000000001 / 10 ^ 29\<bar>
          (- (0 - (int 28 - 1)))) = 10 ^ 27"
    by (simp add: shift10_def round_eval)
qed (simp_all add: shift10_def)

lemma decimal_sub_fine: "decimal_sub (Decimal fine_amount) 1 = 1 / 10 ^ 29"
  unfolding decimal_sub_def Decimal_fine
proof (rule quantizeI [where m = "- 29" and q = "10 ^ 27"])
  show "adjusted \<bar>100000000000000000000000000001 / 10 ^ 29 - 1\<bar> = - 29"
    by (simp add: adjusted_eval)
  show "round_half_even (shift10 \<bar>100000000000000000000000000001 / 10 ^ 29 - 1\<bar>
          (- (- 29 - (int 28 - 1)))) = 10 ^ 27"
    by (simp add: shift10_def round_eval)
qed (simp_all add: shift10_def)

lemma fine_above_one: "\<not> Decimal fine_amount \<le> 1" "Decimal fine_amount \<noteq> 1"
  by (simp_all add: Decimal_fine)

text \<open>The world after Bob's confirmation.\<close>

lemma world_confirmed_eval:
  "world_confirmed =
     \<lparr>db = \<lparr>loans = [\<lparr>db_id = 1, loan_id = 100, lender = ''alice'', borrower = ''bob'',
                       amount = 50, currency = ''USD'', date_created = 100,
                       original_thread = ''https://www.reddit.com/r/borrow/1'',
                       status = Confirmed, amount_repaid = 0, last_updated = None\<rparr>],
            users = [''alice'' \<mapsto> \<lparr>loans_as_borrower = 0, loans_as_lender = 1,
                        amount_borrowed = 0, amount_lent = 50, total_repaid = 0,
                        unpaid_loans = 0, unpaid_amount = 0, stats_updated = Some 100\<rparr>,
                     ''bob'' \<mapsto> \<lparr>loans_as_borrower = 1, loans_as_lender = 0,
                        amount_borrowed = 50, amount_lent = 0, total_repaid = 0,
                        unpaid_loans = 0, unpaid_amount = 0, stats_updated = Some 100\<rparr>],
            loans_id_seq = 1\<rparr>,
      replies = [Confirm_Reply ''bob'' 50 ''USD'' ''alice'' 1],
      mod_mail = [], reconnects = 0\<rparr>"
  unfolding world_confirmed_def
  by (simp add: sample_defs handler_defs statement_defs string_eval init_world_def
      empty_ledger_def Let_def)

text \<open>The world after Alice has then reported the 50.00 USD paid.\<close>

lemma world_repaid_eval:
  "world_repaid =
     \<lparr>db = \<lparr>loans = [\<lparr>db_id = 1, loan_id = 100, lender = ''alice'', borrower = ''bob'',
                       amount = 50, currency = ''USD'', date_created = 100,
                       original_thread = ''https://www.reddit.com/r/borrow/1'',
                       status = Repaid, amount_repaid = 50, last_updated = Some 200\<rparr>],
            users = [''alice'' \<mapsto> \<lparr>loans_as_borrower = 0, loans_as_lender = 1,
                        amount_borrowed = 0, amount_lent = 50, total_repaid = 0,
                        unpaid_loans = 0, unpaid_amount = 0, stats_updated = Some 100\<rparr>,
                     ''bob'' \<mapsto> \<lparr>loans_as_borrower = 1, loans_as_lender = 0,
                        amount_borrowed = 50, amount_lent = 0, total_repaid = 50,
                        unpaid_loans = 0, unpaid_amount = 0, stats_updated = Some 200\<rparr>],
            loans_id_seq = 1\<rparr>,
      replies = [Confirm_Reply ''bob'' 50 ''USD'' ''alice'' 1,
                 Paid_Reply ''bob'' ''alice'' 50 ''USD''
                   \<lparr>db_id = 1, loan_id = 100, lender = ''alice'', borrower = ''bob'',
                       amount = 50, currency = ''USD'', date_created = 100,
                       original_thread = ''https://www.reddit.com/r/borrow/1'',
                       status = Confirmed, amount_repaid = 0, last_updated = None\<rparr>
                   \<lparr>db_id = 1, loan_id = 100, lender = ''alice'', borrower = ''bob'',
                       amount = 50, currency = ''USD'', date_created = 100,
                       original_thread = ''https://www.reddit.com/r/borrow/1'',
                       status = Repaid, amount_repaid = 50, last_updated = Some 200\<rparr> 0],
      mod_mail = [], reconnects = 0\<rparr>"
  unfolding world_repaid_def world_confirmed_eval
  by (simp add: sample_defs handler_defs statement_defs string_eval int4_samples
      decimal_samples Let_def)

text \<open>The world after Alice has, instead, answered the confirmation with ``Refunded''.\<close>

lemma lower_samples:
  "lower ''Alice'' = ''alice''" "lower ''Bob'' = ''bob''" "lower ''alice'' = ''alice''"
  "lower ''bob'' = ''bob''" "lower ''LoanCentralBot'' = ''loancentralbot''"
  "lower ''Refunded'' = ''refunded''"
  by (simp_all add: string_eval)

lemma upper_samples: "upper ''USD'' = ''USD''" "upper ''EUR'' = ''EUR''" "upper ''usd'' = ''USD''"
  by (simp_all add: string_eval)

lemma world_refunded_eval:
  "world_refunded =
     \<lparr>db = \<lparr>loans = [\<lparr>db_id = 1, loan_id = 100, lender = ''alice'', borrower = ''bob'',
                       amount = 50, currency = ''USD'', date_created = 100,
                       original_thread = ''https://www.reddit.com/r/borrow/1'',
                       status = Refunded, amount_repaid = 0, last_updated = Some 200\<rparr>],
            users = [''alice'' \<mapsto> \<lparr>loans_as_borrower = 0, loans_as_lender = 0,
                        amount_borrowed = 0, amount_lent = 0, total_repaid = 0,
                        unpaid_loans = 0, unpaid_amount = 0, stats_updated = Some 200\<rparr>,
                     ''bob'' \<mapsto> \<lparr>loans_as_borrower = 0, loans_as_lender = 0,
                        amount_borrowed = 0, amount_lent = 0, total_repaid = 0,
                        unpaid_loans = 0, unpaid_amount = 0, stats_updated = Some 200\<rparr>],
            loans_id_seq = 1\<rparr>,
      replies = [Confirm_Reply ''bob'' 50 ''USD'' ''alice'' 1,
                 Refund_Reply ''alice'' ''bob'' 50 ''USD''],
      mod_mail = [Loan_Refunded ''alice'' ''bob'' 50 ''USD''], reconnects = 0\<rparr>"
  unfolding world_refunded_def world_confirmed_eval
  by (simp add: sample_defs handler_defs statement_defs lower_samples upper_samples Let_def)

text \<open>The world after Bob has confirmed a second loan from Alice.\<close>

lemma world_two_loans_eval:
  "world_two_loans =
     \<lparr>db = \<lparr>loans = [\<lparr>db_id = 1, loan_id = 100, lender = ''alice'', borrower = ''bob'',
                       amount = 50, currency = ''USD'', date_created = 100,
                       original_thread = ''https://www.reddit.com/r/borrow/1'',
                       status = Confirmed, amount_repaid = 0, last_updated = None\<rparr>,
                     \<lparr>db_id = 2, loan_id = 150, lender = ''alice'', borrower = ''bob'',
                       amount = 30, currency = ''USD'', date_created = 150,
                       original_thread = ''https://www.reddit.com/r/borrow/1'',
                       status = Confirmed, amount_repaid = 0, last_updated = None\<rparr>],
            users = [''alice'' \<mapsto> \<lparr>loans_as_borrower = 0, loans_as_lender = 2,
                        amount_borrowed = 0, amount_lent = 80, total_repaid = 0,
                        unpaid_loans = 0, unpaid_amount = 0, stats_updated = Some 150\<rparr>,
                     ''bob'' \<mapsto> \<lparr>loans_as_borrower = 2, loans_as_lender = 0,
                        amount_borrowed = 80, amount_lent = 0, total_repaid = 0,
                        unpaid_loans = 0, unpaid_amount = 0, stats_updated = Some 150\<rparr>],
            loans_id_seq = 2\<rparr>,
      replies = [Confirm_Reply ''bob'' 50 ''USD'' ''alice'' 1,
                 Confirm_Reply ''bob'' 30 ''USD'' ''alice'' 2],
      mod_mail = [], reconnects = 0\<rparr>"
  unfolding world_two_loans_def world_confirmed_eval
  by (simp add: sample_defs handler_defs statement_defs string_eval Let_def)

section \<open>The offer handler\<close>

text \<open>
  An offer never changes the ledger: whatever the comment, the world the stream loop is
  left with after \<^verbatim>\<open>process_loan_command\<close> has the tables it had before; and when the
  post has no author, or the lender is the borrower, no reply is sent.
\<close>

lemma offer_leaves_ledger:
  "db (after_handler w (process_loan_command c w)) = db w \<and>
   (post_author c = None \<or> map_option lower (post_author c) = map_option lower (author c)
      \<longrightarrow> replies (after_handler w (process_loan_command c w)) = replies w)"
  by (auto simp: process_loan_command_def after_handler_def send_reply_def Let_def
      split: option.splits prod.splits)

text \<open>
  Claim C8 says that an offer on a post without author fails silently, as the offer of a
  lender to himself does. The handler returns silently for the lender who is the borrower
  (Bob offering on his own post): the world is as it was. On a post without author it reads
  \<^verbatim>\<open>post.author.name\<close> before every check and outside every \<^verbatim>\<open>try\<close>: the
  \<^verbatim>\<open>AttributeError\<close> leaves the handler and ends the \<^verbatim>\<open>for\<close> loop of
  \<^verbatim>\<open>comment_monitor\<close>, which logs an error in the comment stream and opens the stream
  again after a minute. The loop itself skips a comment without author, and
  \<^verbatim>\<open>handle_new_post\<close> a post without author.
\<close>

theorem offer_on_post_without_author:
  "loan_match alice_offers_nobody \<noteq> None \<and> post_author alice_offers_nobody = None \<and>
   process_loan_command alice_offers_nobody world_confirmed = Inl AttributeError \<and>
   comment_monitor_step sample_config (at_time 200) alice_offers_nobody world_confirmed =
     world_confirmed\<lparr>reconnects := Suc (reconnects world_confirmed)\<rparr> \<and>
   process_loan_command bob_offers_himself world_confirmed = Inr world_confirmed \<and>
   comment_monitor_step sample_config (at_time 200) bob_offers_himself world_confirmed =
     world_confirmed"
  by (simp add: sample_defs string_eval process_loan_command_def comment_monitor_step_def
      after_handler_def Let_def)

section \<open>The dispatch of a comment\<close>

text \<open>
  Claim C9. For every comment at most one handler runs, chosen by first-match-wins
  precedence over the keyword markers in the order loan offer, confirm, paid, refund,
  stats: one iteration of \<^verbatim>\<open>comment_monitor\<close> is the handler of the first marker
  of that order found in the lower-cased body, and nothing when none is.
\<close>

theorem first_match_wins:
  "comment_monitor_step cfg e c w =
     (case author c of
        None \<Rightarrow> w
      | Some author_name \<Rightarrow>
          if lower author_name = lower (bot_username cfg) then w
          else (case first_match (body c) of
                  None \<Rightarrow> w
                | Some h \<Rightarrow> after_handler w (run_handler h cfg e c w)))"
  by (simp add: comment_monitor_step_def first_match_def precedence_def Let_def
      split: option.splits)

theorem first_match_wins_witness:
  "first_match (body bob_confirms_quoting_offer) = Some Offer \<and>
   comment_monitor_step sample_config (at_time 100) bob_confirms_quoting_offer init_world =
     after_handler init_world (process_loan_command bob_confirms_quoting_offer init_world) \<and>
   comment_monitor_step sample_config (at_time 100) bob_confirms_quoting_offer init_world =
     init_world"
proof -
  have m: "first_match (body bob_confirms_quoting_offer) = Some Offer"
    by (simp add: first_match_def precedence_def sample_defs string_eval)
  have a: "author bob_confirms_quoting_offer = Some ''Bob''"
    by (simp add: sample_defs)
  have n: "lower ''Bob'' \<noteq> lower (bot_username sample_config)"
    by (simp add: sample_defs string_eval)
  have r: "process_loan_command bob_confirms_quoting_offer init_world = Inr init_world"
    by (simp add: process_loan_command_def sample_defs)
  show ?thesis
    using first_match_wins [of sample_config "at_time 100" bob_confirms_quoting_offer init_world]
    by (simp add: m a n r after_handler_def)
qed

section \<open>The checks of a payment\<close>

text \<open>
  When the text of the loan id is a 32-bit integer: if no loan has this id with the comment
  author as lender, the reply is the loan-not-found error; if the loan is found and the
  stated currency differs from the loan's, the reply is the currency-mismatch error; in
  both cases the reply is all that happens, no row of \<^verbatim>\<open>loans\<close> or \<^verbatim>\<open>users\<close> is
  modified.
\<close>

lemma paid_rejection_changes_nothing:
  assumes "db_up e"
    and "paid_match c = Some (loan_id_text, amount_text, currency_text)"
    and "author c = Some a"
    and "int4_in loan_id_text = Some lid"
  shows "(\<not> (\<exists>l \<in> set (loans (db w)). db_id l = lid \<and> lender l = lower a) \<longrightarrow>
            process_paid_command e c w = Inr (send_reply (Loan_Not_Found loan_id_text) w)) \<and>
         (\<forall>row. loan_of_lender lid (lower a) (db w) = Some row \<and>
                 currency row \<noteq> upper currency_text \<longrightarrow>
            process_paid_command e c w =
              Inr (send_reply (Currency_Mismatch (currency row) (upper currency_text)) w)) \<and>
         (\<forall>r. db (send_reply r w) = db w \<and> replies (send_reply r w) = replies w @ [r])"
proof (intro conjI impI allI)
  assume "\<not> (\<exists>l \<in> set (loans (db w)). db_id l = lid \<and> lender l = lower a)"
  then have "loan_of_lender lid (lower a) (db w) = None"
    by (auto simp: loan_of_lender_def find_None_iff)
  with assms show "process_paid_command e c w = Inr (send_reply (Loan_Not_Found loan_id_text) w)"
    by (simp add: process_paid_command_def select_loan_for_payment_def)
next
  fix row
  assume "loan_of_lender lid (lower a) (db w) = Some row \<and>
          currency row \<noteq> upper currency_text"
  with assms show "process_paid_command e c w =
      Inr (send_reply (Currency_Mismatch (currency row) (upper currency_text)) w)"
    by (simp add: process_paid_command_def select_loan_for_payment_def)
qed (simp_all add: send_reply_def)

text \<open>
  Claim C6 says that every Paid command naming a loan that does not exist with the author
  as lender gets the loan-not-found error. The handler replies it when the lookup returns
  no row, as for loan 9 here. The text of the loan id is any run of digits, and
  \<^verbatim>\<open>$paid_with_id 3000000000 20.00 USD\<close> names a loan that does not exist: the lookup
  itself fails on a number that is no 32-bit integer, the handler catches the error of the
  database, rolls back and replies nothing.
\<close>

theorem paid_with_overlong_id_gets_no_reply:
  "paid_match (alice_paid ''3000000000'' 2000 ''USD'') =
     Some (''3000000000'', Decimal_Text 2000 2, ''USD'') \<and>
   \<not> list_ex (\<lambda>l. db_id l = 3000000000) (loans (db world_confirmed)) \<and>
   select_loan_for_payment ''3000000000'' ''alice'' (db world_confirmed) = Inl Data_Error \<and>
   process_paid_command (at_time 200) (alice_paid ''3000000000'' 2000 ''USD'') world_confirmed =
     Inr world_confirmed \<and>
   comment_monitor_step sample_config (at_time 200) (alice_paid ''3000000000'' 2000 ''USD'')
     world_confirmed = world_confirmed \<and>
   process_paid_command (at_time 200) (alice_paid ''9'' 2000 ''USD'') world_confirmed =
     Inr (send_reply (Loan_Not_Found ''9'') world_confirmed)"
proof -
  have 1: "\<not> list_ex (\<lambda>l. db_id l = 3000000000) (loans (db world_confirmed))"
    "loan_of_lender 9 ''alice'' (db world_confirmed) = None"
    by (simp_all add: world_confirmed_eval loan_of_lender_def)
  have 2: "select_loan_for_payment ''3000000000'' ''alice'' (db world_confirmed) =
      Inl Data_Error"
    "select_loan_for_payment ''9'' ''alice'' (db world_confirmed) = Inr None"
    by (simp_all add: select_loan_for_payment_def int4_samples 1)
  show ?thesis
    using 1(1)
    by (simp add: 2 sample_defs string_eval process_paid_command_def comment_monitor_step_def
        after_handler_def Let_def)
qed

section \<open>Confirming one's own loan\<close>

text \<open>
  Claim C3 says that a Confirm comment whose named lender is the comment author creates
  no loan and changes no statistics. The confirm handler has no such check (the offer
  handler has): Alice confirming a loan from herself gets a loan row with lender and
  borrower both \<open>alice\<close>, both her counts raised, and the confirmation reply.
\<close>

theorem self_confirmation_creates_loan:
  "map (\<lambda>l. (lender l, borrower l, status l))
     (loans (db (comment_monitor_step sample_config (at_time 100) alice_confirms_herself init_world)))
     = [(''alice'', ''alice'', Confirmed)] \<and>
   users (db (comment_monitor_step sample_config (at_time 100) alice_confirms_herself init_world)) ''alice''
     = Some \<lparr>loans_as_borrower = 1, loans_as_lender = 1, amount_borrowed = 50,
              amount_lent = 50, total_repaid = 0, unpaid_loans = 0, unpaid_amount = 0,
              stats_updated = Some 100\<rparr> \<and>
   replies (comment_monitor_step sample_config (at_time 100) alice_confirms_herself init_world)
     = [Confirm_Reply ''alice'' 50 ''USD'' ''alice'' 1]"
  by (simp add: sample_defs handler_defs statement_defs string_eval init_world_def
      empty_ledger_def Let_def)

section \<open>An accepted payment\<close>

lemma find_map_preserved:
  "(\<And>x. P (f x) = P x) \<Longrightarrow> find P (map f xs) = map_option f (find P xs)"
  by (induction xs) simp_all

lemma find_SomeD: "find P xs = Some x \<Longrightarrow> P x \<and> x \<in> set xs"
  by (induction xs) (auto split: if_splits)

lemma loans_update_user [simp]: "loans (update_user u g d) = loans d"
  by (simp add: update_user_def split: option.splits)

lemma loans_id_seq_update_user [simp]: "loans_id_seq (update_user u g d) = loans_id_seq d"
  by (simp add: update_user_def split: option.splits)

lemma users_update_user:
  "users (update_user u g d) v = (if v = u then map_option g (users d u) else users d v)"
  by (simp add: update_user_def split: option.splits)

lemma users_update_loan_payment [simp]:
  "users (update_loan_payment lid r s t d) = users d"
  by (simp add: update_loan_payment_def)

lemma users_update_loan_refunded [simp]:
  "users (update_loan_refunded lid t d) = users d"
  by (simp add: update_loan_refunded_def)

lemma loan_of_lender_row:
  "loan_of_lender lid le d = Some row \<Longrightarrow>
     row \<in> set (loans d) \<and> db_id row = lid \<and> lender row = le"
  by (auto simp: loan_of_lender_def dest: find_SomeD)

lemma select_loan_by_id_found:
  "loan_of_lender lid le d = Some row \<Longrightarrow> \<exists>r. select_loan_by_id lid d = Some r"
proof -
  assume "loan_of_lender lid le d = Some row"
  then have "row \<in> set (loans d)" "db_id row = lid"
    by (simp_all add: loan_of_lender_row)
  then have "find (\<lambda>l. db_id l = lid) (loans d) \<noteq> None"
    by (auto simp: find_None_iff)
  then show ?thesis
    by (auto simp: select_loan_by_id_def)
qed

lemma loan_of_lender_updated:
  "loan_of_lender lid le (update_loan_payment lid r s t d) =
     map_option (\<lambda>l. l\<lparr>amount_repaid := r, status := s, last_updated := Some t\<rparr>)
       (loan_of_lender lid le d)"
proof -
  let ?f = "\<lambda>l. if db_id l = lid
                  then l\<lparr>amount_repaid := r, status := s, last_updated := Some t\<rparr> else l"
  have "find (\<lambda>l. db_id l = lid \<and> lender l = le) (map ?f (loans d)) =
        map_option ?f (find (\<lambda>l. db_id l = lid \<and> lender l = le) (loans d))"
    by (rule find_map_preserved) simp
  moreover have "map_option ?f (find (\<lambda>l. db_id l = lid \<and> lender l = le) (loans d)) =
      map_option (\<lambda>l. l\<lparr>amount_repaid := r, status := s, last_updated := Some t\<rparr>)
        (find (\<lambda>l. db_id l = lid \<and> lender l = le) (loans d))"
    by (cases "find (\<lambda>l. db_id l = lid \<and> lender l = le) (loans d)")
      (auto dest: find_SomeD)
  ultimately show ?thesis
    by (simp add: loan_of_lender_def update_loan_payment_def)
qed

lemma select_loan_by_id_updated:
  "select_loan_by_id lid (update_loan_payment lid r s t d) =
     map_option (\<lambda>l. l\<lparr>amount_repaid := r, status := s, last_updated := Some t\<rparr>)
       (select_loan_by_id lid d)"
proof -
  let ?f = "\<lambda>l. if db_id l = lid
                  then l\<lparr>amount_repaid := r, status := s, last_updated := Some t\<rparr> else l"
  have "find (\<lambda>l. db_id l = lid) (map ?f (loans d)) =
        map_option ?f (find (\<lambda>l. db_id l = lid) (loans d))"
    by (rule find_map_preserved) simp
  moreover have "map_option ?f (find (\<lambda>l. db_id l = lid) (loans d)) =
      map_option (\<lambda>l. l\<lparr>amount_repaid := r, status := s, last_updated := Some t\<rparr>)
        (find (\<lambda>l. db_id l = lid) (loans d))"
    by (cases "find (\<lambda>l. db_id l = lid) (loans d)") (auto dest: find_SomeD)
  ultimately show ?thesis
    by (simp add: select_loan_by_id_def update_loan_payment_def)
qed

lemma select_loan_by_id_update_user [simp]:
  "select_loan_by_id lid (update_user u g d) = select_loan_by_id lid d"
  by (simp add: select_loan_by_id_def)

lemma loan_of_lender_update_user [simp]:
  "loan_of_lender lid le (update_user u g d) = loan_of_lender lid le d"
  by (simp add: loan_of_lender_def)

lemma paid_accepted:
  assumes "db_up e"
    and "paid_match c = Some (loan_id_text, amount_text, currency_text)"
    and "author c = Some a"
    and "int4_in loan_id_text = Some lid"
    and "loan_of_lender lid (lower a) (db w) = Some row"
    and "currency row = upper currency_text"
  shows "\<exists>before_row after_row.
     process_paid_command e c w =
       Inr (send_reply
              (Paid_Reply (borrower row) (lower a) (Decimal amount_text) (upper currency_text)
                 before_row after_row
                 (if 0 < decimal_sub (amount row)
                           (decimal_add (amount_repaid row) (Decimal amount_text))
                  then decimal_sub (amount row)
                         (decimal_add (amount_repaid row) (Decimal amount_text))
                  else 0))
              (w\<lparr>db := ledger_after_payment lid row (Decimal amount_text) (now e) (db w)\<rparr>))"
proof -
  have id: "db_id row = lid"
    using assms(5) by (simp add: loan_of_lender_row)
  obtain r where r: "select_loan_by_id lid (db w) = Some r"
    using select_loan_by_id_found [OF assms(5)] by blast
  show ?thesis
    apply (rule exI [of _ r])
    apply (rule exI [of _ "r\<lparr>amount_repaid := decimal_add (amount_repaid row) (Decimal amount_text),
        status := (if amount row \<le> decimal_add (amount_repaid row) (Decimal amount_text)
                   then Repaid else Partially_Repaid),
        last_updated := Some (now e)\<rparr>"])
    using assms r id
    apply (simp add: process_paid_command_def select_loan_for_payment_def
        ledger_after_payment_def Let_def select_loan_by_id_updated)
    done
qed

lemma ledger_after_payment_loan:
  assumes "loan_of_lender lid le d = Some row"
  shows "loan_of_lender lid le (ledger_after_payment lid row paid t d) =
     Some (row\<lparr>amount_repaid := decimal_add (amount_repaid row) paid,
               status := (if amount row \<le> decimal_add (amount_repaid row) paid
                          then Repaid else Partially_Repaid),
               last_updated := Some t\<rparr>)"
  using assms
  by (simp add: ledger_after_payment_def Let_def loan_of_lender_updated)

lemma ledger_after_payment_user:
  assumes "users d (borrower row) = Some u"
  shows "users (ledger_after_payment lid row paid t d) (borrower row) =
     Some (if amount row \<le> decimal_add (amount_repaid row) paid
           then settle_unpaid (amount row) t (add_repaid paid t u)
           else add_repaid paid t u)"
  using assms
  by (simp add: ledger_after_payment_def Let_def users_update_user)

text \<open>The world after Bob has confirmed the loan of 1.00000000000000000000000000001 USD.\<close>

lemma world_fine_eval:
  "world_fine =
     \<lparr>db = \<lparr>loans = [\<lparr>db_id = 1, loan_id = 100, lender = ''alice'', borrower = ''bob'',
                       amount = Decimal fine_amount, currency = ''USD'', date_created = 100,
                       original_thread = ''https://www.reddit.com/r/borrow/1'',
                       status = Confirmed, amount_repaid = 0, last_updated = None\<rparr>],
            users = [''alice'' \<mapsto> \<lparr>loans_as_borrower = 0, loans_as_lender = 1,
                        amount_borrowed = 0, amount_lent = Decimal fine_amount,
                        total_repaid = 0, unpaid_loans = 0, unpaid_amount = 0,
                        stats_updated = Some 100\<rparr>,
                     ''bob'' \<mapsto> \<lparr>loans_as_borrower = 1, loans_as_lender = 0,
                        amount_borrowed = Decimal fine_amount, amount_lent = 0,
                        total_repaid = 0, unpaid_loans = 0, unpaid_amount = 0,
                        stats_updated = Some 100\<rparr>],
            loans_id_seq = 1\<rparr>,
      replies = [Confirm_Reply ''bob'' (Decimal fine_amount) ''USD'' ''alice'' 1],
      mod_mail = [], reconnects = 0\<rparr>"
  unfolding world_fine_def
  by (simp add: sample_defs handler_defs sql_defs string_eval init_world_def
      empty_ledger_def Let_def)

text \<open>
  Claim C5 says that an accepted payment raises the loan's \<open>amount_repaid\<close> by exactly
  the amount paid and makes the loan \<open>Repaid\<close> exactly when the repaid amount reaches the
  principal. The handler adds in Python, in \<^verbatim>\<open>Decimal\<close>, whose sums keep 28 significant
  digits. On the loan of 1.00000000000000000000000000001 USD, nothing repaid yet, Alice
  reports the whole amount paid: the sum of 0 and the amount is stored as 1, which is not
  the amount paid and is below the principal, so the loan becomes \<open>Partially_Repaid\<close>.
  Bob's aggregate, which PostgreSQL adds, grows by the amount paid exactly.
\<close>

theorem payment_of_thirty_digits_is_rounded:
  "map amount (loans (db world_fine)) = [Decimal fine_amount] \<and>
   map amount_repaid (loans (db world_fine)) = [0] \<and>
   paid_match alice_paid_fine = Some (''1'', fine_amount, ''USD'') \<and>
   map amount_repaid (loans (db (comment_monitor_step sample_config (at_time 200)
       alice_paid_fine world_fine))) = [1] \<and>
   0 + Decimal fine_amount \<noteq> 1 \<and>
   map status (loans (db (comment_monitor_step sample_config (at_time 200)
       alice_paid_fine world_fine))) = [Partially_Repaid] \<and>
   stat total_repaid (db (comment_monitor_step sample_config (at_time 200)
       alice_paid_fine world_fine)) ''bob'' = Decimal fine_amount"
  unfolding world_fine_eval
  by (simp add: sample_defs handler_defs sql_defs string_eval int4_samples decimal_add_fine
      decimal_sub_fine fine_above_one stat_def Let_def)

section \<open>A payment on a loan that is repaid or refunded\<close>

text \<open>
  Claim C1 says that a Paid command addressed to a loan whose status is \<open>Repaid\<close> or
  \<open>Refunded\<close> is rejected with an error and changes nothing. The handler never reads
  the status. After Bob's confirmation and Alice's report of the full 50.00 USD the loan
  is \<open>Repaid\<close>; a second report of 50.00 USD is applied: the loan's \<open>amount_repaid\<close>
  and Bob's repaid aggregate go from 50 to 100, a third reply is sent, and no reply is an
  error.
\<close>

theorem paid_on_repaid_loan_is_applied:
  "map status (loans (db world_repaid)) = [Repaid] \<and>
   map amount_repaid (loans (db world_repaid)) = [50] \<and>
   stat total_repaid (db world_repaid) ''bob'' = 50 \<and>
   map amount_repaid (loans (db (comment_monitor_step sample_config (at_time 300)
       (alice_paid ''1'' 5000 ''USD'') world_repaid))) = [100] \<and>
   stat total_repaid (db (comment_monitor_step sample_config (at_time 300)
       (alice_paid ''1'' 5000 ''USD'') world_repaid)) ''bob'' = 100 \<and>
   length (replies (comment_monitor_step sample_config (at_time 300)
       (alice_paid ''1'' 5000 ''USD'') world_repaid)) = 3 \<and>
   \<not> list_ex is_error_reply (replies (comment_monitor_step sample_config (at_time 300)
       (alice_paid ''1'' 5000 ''USD'') world_repaid))"
  unfolding world_repaid_eval
  by (simp add: sample_defs handler_defs statement_defs string_eval int4_samples
      decimal_samples Let_def stat_def)

text \<open>
  Claim C1, amended. A Paid command addressed to a loan whose status is \<open>Repaid\<close> or
  \<open>Refunded\<close> is treated as any other: when the loan, lender and currency checks pass,
  the payment report is replied, and, the sum of the loan's \<open>amount_repaid\<close> and the
  amount paid being within the 28 significant digits of \<^verbatim>\<open>Decimal\<close>, the loan's
  \<open>amount_repaid\<close> grows by the amount paid, the status is computed anew from the
  amounts alone (\<open>Repaid\<close> when the new \<open>amount_repaid\<close> reaches the principal, else
  \<open>Partially_Repaid\<close>), the borrower's repaid aggregate grows by the amount paid, and
  whenever the new status is \<open>Repaid\<close> the clamped decrement of \<open>unpaid_loans\<close> by 1
  and of \<open>unpaid_amount\<close> by the principal is made again.
\<close>

theorem paid_on_terminal_loan:
  assumes "db_up e"
    and "paid_match c = Some (loan_id_text, amount_text, currency_text)"
    and "author c = Some a"
    and "int4_in loan_id_text = Some lid"
    and "loan_of_lender lid (lower a) (db w) = Some row"
    and "currency row = upper currency_text"
    and "status row = Repaid \<or> status row = Refunded"
    and "users (db w) (borrower row) = Some u"
    and "decimal_add (amount_repaid row) (Decimal amount_text) =
           amount_repaid row + Decimal amount_text"
  shows "\<exists>w' row' u' before_row after_row remaining.
     process_paid_command e c w = Inr w' \<and>
     replies w' = replies w @
       [Paid_Reply (borrower row) (lower a) (Decimal amount_text) (upper currency_text)
          before_row after_row remaining] \<and>
     loan_of_lender lid (lower a) (db w') = Some row' \<and>
     amount_repaid row' = amount_repaid row + Decimal amount_text \<and>
     status row' = (if amount row \<le> amount_repaid row + Decimal amount_text
                    then Repaid else Partially_Repaid) \<and>
     users (db w') (borrower row) = Some u' \<and>
     total_repaid u' = total_repaid u + Decimal amount_text \<and>
     (amount row \<le> amount_repaid row + Decimal amount_text \<longrightarrow>
        unpaid_loans u' = greatest (unpaid_loans u - 1) 0 \<and>
        unpaid_amount u' = greatest (unpaid_amount u - amount row) 0)"
proof -
  let ?paid = "Decimal amount_text"
  let ?new = "decimal_add (amount_repaid row) ?paid"
  let ?d = "ledger_after_payment lid row ?paid (now e) (db w)"
  let ?rem = "if 0 < decimal_sub (amount row) ?new then decimal_sub (amount row) ?new else 0"
  obtain before_row after_row where run:
    "process_paid_command e c w =
       Inr (send_reply
              (Paid_Reply (borrower row) (lower a) ?paid (upper currency_text)
                 before_row after_row ?rem)
              (w\<lparr>db := ?d\<rparr>))"
    using paid_accepted [OF assms(1-6)] by blast
  let ?w = "send_reply
              (Paid_Reply (borrower row) (lower a) ?paid (upper currency_text)
                 before_row after_row ?rem)
              (w\<lparr>db := ?d\<rparr>)"
  let ?row = "row\<lparr>amount_repaid := ?new,
               status := (if amount row \<le> ?new then Repaid else Partially_Repaid),
               last_updated := Some (now e)\<rparr>"
  let ?u = "if amount row \<le> ?new
           then settle_unpaid (amount row) (now e) (add_repaid ?paid (now e) u)
           else add_repaid ?paid (now e) u"
  have db: "db ?w = ?d" by (simp add: send_reply_def)
  have l: "loan_of_lender lid (lower a) (db ?w) = Some ?row"
    unfolding db by (rule ledger_after_payment_loan [OF assms(5)])
  have us: "users (db ?w) (borrower row) = Some ?u"
    unfolding db by (rule ledger_after_payment_user [OF assms(8)])
  have rp: "replies ?w = replies w @
       [Paid_Reply (borrower row) (lower a) ?paid (upper currency_text)
          before_row after_row ?rem]"
    by (simp add: send_reply_def)
  have u1: "total_repaid ?u = total_repaid u + ?paid"
    by (simp add: settle_unpaid_def add_repaid_def)
  have u2: "amount row \<le> amount_repaid row + ?paid \<longrightarrow>
        unpaid_loans ?u = greatest (unpaid_loans u - 1) 0 \<and>
        unpaid_amount ?u = greatest (unpaid_amount u - amount row) 0"
    by (simp add: assms(9) settle_unpaid_def add_repaid_def)
  have r1: "amount_repaid ?row = amount_repaid row + ?paid"
    "status ?row = (if amount row \<le> amount_repaid row + ?paid
                    then Repaid else Partially_Repaid)"
    by (simp_all add: assms(9))
  show ?thesis
    using run l us rp u1 u2 r1 by blast
qed

theorem paid_on_terminal_loan_witness:
  "\<exists>w' row' u' before_row after_row remaining.
     process_paid_command (at_time 300) (alice_paid ''1'' 5000 ''USD'') world_repaid = Inr w' \<and>
     replies w' = replies world_repaid @
       [Paid_Reply ''bob'' ''alice'' 50 ''USD'' before_row after_row remaining] \<and>
     loan_of_lender 1 ''alice'' (db w') = Some row' \<and>
     amount_repaid row' = 100 \<and> status row' = Repaid \<and>
     users (db w') ''bob'' = Some u' \<and> total_repaid u' = 100 \<and>
     unpaid_loans u' = 0 \<and> unpaid_amount u' = 0"
proof -
  let ?row = "\<lparr>db_id = 1, loan_id = 100, lender = ''alice'', borrower = ''bob'',
                amount = 50, currency = ''USD'', date_created = 100,
                original_thread = ''https://www.reddit.com/r/borrow/1'',
                status = Repaid, amount_repaid = 50, last_updated = Some 200\<rparr>"
  let ?u = "\<lparr>loans_as_borrower = 1, loans_as_lender = 0,
                        amount_borrowed = 50, amount_lent = 0, total_repaid = 50,
                        unpaid_loans = 0, unpaid_amount = 0, stats_updated = Some 200\<rparr>"
  have d: "Decimal (Decimal_Text 5000 2) = 50" by (simp add: Decimal_def)
  have h1: "db_up (at_time 300)" by (simp add: at_time_def)
  have h2: "paid_match (alice_paid ''1'' 5000 ''USD'') =
      Some (''1'', Decimal_Text 5000 2, ''USD'')"
    by (simp add: sample_defs)
  have h3: "author (alice_paid ''1'' 5000 ''USD'') = Some ''Alice''"
    by (simp add: sample_defs)
  have h4: "int4_in ''1'' = Some 1" by (rule int4_samples)
  have h5: "loan_of_lender 1 (lower ''Alice'') (db world_repaid) = Some ?row"
    by (simp add: world_repaid_eval loan_of_lender_def string_eval)
  have h6: "currency ?row = upper ''USD''"
    by (simp add: string_eval)
  have h7: "status ?row = Repaid \<or> status ?row = Refunded" by simp
  have h8: "users (db world_repaid) (borrower ?row) = Some ?u"
    by (simp add: world_repaid_eval)
  have h9: "decimal_add (amount_repaid ?row) (Decimal (Decimal_Text 5000 2)) =
      amount_repaid ?row + Decimal (Decimal_Text 5000 2)"
    by (simp add: d decimal_samples)
  have la: "lower ''Alice'' = ''alice''" by (simp add: string_eval)
  from paid_on_terminal_loan [OF h1 h2 h3 h4 h5 h6 h7 h8 h9]
  show ?thesis
    by (simp add: la d upper_def upper_char_def greatest_def)
qed

section \<open>A second refund\<close>

lemma most_recent_map:
  "(\<And>x. date_created (f x) = date_created x) \<Longrightarrow>
     most_recent (f l) (map f ls) = f (most_recent l ls)"
  by (induction ls arbitrary: l) simp_all

lemma select_loan_for_refund_map:
  assumes "\<And>x. lender (f x) = lender x" "\<And>x. borrower (f x) = borrower x"
    "\<And>x. amount (f x) = amount x" "\<And>x. currency (f x) = currency x"
    and dc: "\<And>x. date_created (f x) = date_created x" and di: "\<And>x. db_id (f x) = db_id x"
  shows "select_loan_for_refund le bo am cu (d\<lparr>loans := map f (loans d)\<rparr>) =
         select_loan_for_refund le bo am cu d"
proof -
  let ?P = "\<lambda>l. lender l = le \<and> borrower l = bo \<and> amount l = am \<and> currency l = cu"
  have P: "\<And>x. ?P (f x) = ?P x"
    by (simp only: assms)
  have F: "filter ?P (map f xs) = map f (filter ?P xs)" for xs
    by (induction xs) (simp_all only: list.map filter.simps P if_distrib [of "map f"])
  show ?thesis
  proof (cases "filter ?P (loans d)")
    case Nil
    then have "filter ?P (map f (loans d)) = []"
      by (simp only: F list.map)
    with Nil show ?thesis
      by (simp add: select_loan_for_refund_def)
  next
    case (Cons l ls)
    then have "filter ?P (map f (loans d)) = f l # map f ls"
      by (simp only: F list.map)
    moreover have "most_recent (f l) (map f ls) = f (most_recent l ls)"
      by (rule most_recent_map) (rule dc)
    ultimately show ?thesis
      using Cons by (simp add: select_loan_for_refund_def di)
  qed
qed

lemma select_loan_for_refund_refunded [simp]:
  "select_loan_for_refund le bo am cu (update_loan_refunded lid t d) =
   select_loan_for_refund le bo am cu d"
  unfolding update_loan_refunded_def
  by (rule select_loan_for_refund_map) simp_all

lemma select_loan_for_refund_update_user [simp]:
  "select_loan_for_refund le bo am cu (update_user u g d) =
   select_loan_for_refund le bo am cu d"
  by (simp add: select_loan_for_refund_def)

lemma select_loan_for_refund_after [simp]:
  "select_loan_for_refund le bo am cu (ledger_after_refund lid le' bo' am' t d) =
   select_loan_for_refund le bo am cu d"
  by (simp add: ledger_after_refund_def)

lemma refund_accepted:
  assumes "db_up e"
    and "parent_author c = Some p" and "lower p = lower (bot_username cfg)"
    and "str_in ''refunded'' (lower (body c))"
    and "refund_match c = Some (borrower_text, amount_text, currency_text, lender_text)"
    and "author c = Some a" and "lower a = lower lender_text"
    and "select_loan_for_refund (lower lender_text) (lower borrower_text)
           (Decimal amount_text) currency_text (db w) = Some lid"
  shows "process_refund_command cfg e c w =
     Inr (w\<lparr>db := ledger_after_refund lid (lower lender_text) (lower borrower_text)
                    (Decimal amount_text) (now e) (db w),
            replies := replies w @
              [Refund_Reply (lower lender_text) (lower borrower_text) (Decimal amount_text)
                 currency_text],
            mod_mail := mod_mail w @
              [Loan_Refunded (lower lender_text) (lower borrower_text) (Decimal amount_text)
                 currency_text]\<rparr>)"
  using assms
  by (simp add: process_refund_command_def ledger_after_refund_def send_reply_def Let_def)

lemma Decimal_nonneg: "0 \<le> Decimal t"
  by (simp add: Decimal_def)

lemma loans_after_refund:
  "loans (ledger_after_refund lid le bo am t d) =
     map (\<lambda>l. if db_id l = lid then l\<lparr>status := Refunded, last_updated := Some t\<rparr> else l)
       (loans d)"
  by (simp add: ledger_after_refund_def update_loan_refunded_def)

lemma status_after_refund:
  assumes "l \<in> set (loans (ledger_after_refund lid le bo am t d))" and "db_id l = lid"
  shows "status l = Refunded"
proof -
  from assms(1)
  have "l \<in> (\<lambda>l. if db_id l = lid then l\<lparr>status := Refunded, last_updated := Some t\<rparr> else l)
            ` set (loans d)"
    by (simp only: loans_after_refund set_map)
  then obtain x where
    lx: "l = (if db_id x = lid then x\<lparr>status := Refunded, last_updated := Some t\<rparr> else x)" ..
  show ?thesis
  proof (cases "db_id x = lid")
    case True
    with lx show ?thesis by simp
  next
    case False
    with lx have "l = x" by simp
    with False assms(2) show ?thesis by simp
  qed
qed

lemma users_after_refund:
  "users (ledger_after_refund lid le bo am t d) u =
     (if u = bo
      then map_option (refund_borrower am t)
             (if bo = le then map_option (refund_lender am t) (users d le) else users d bo)
      else if u = le then map_option (refund_lender am t) (users d le)
      else users d u)"
  by (simp add: ledger_after_refund_def users_update_user)

lemma stat_lender_after_refund:
  "stat loans_as_lender (ledger_after_refund lid le bo am t d) le =
     greatest (stat loans_as_lender d le - 1) 0"
  "0 \<le> am \<Longrightarrow> stat amount_lent (ledger_after_refund lid le bo am t d) le =
     greatest (stat amount_lent d le - am) 0"
  by (cases "users d le"; cases "le = bo";
      simp add: stat_def users_after_refund refund_lender_def refund_borrower_def
        greatest_def)+

lemma stat_borrower_after_refund:
  "stat loans_as_borrower (ledger_after_refund lid le bo am t d) bo =
     greatest (stat loans_as_borrower d bo - 1) 0"
  "0 \<le> am \<Longrightarrow> stat amount_borrowed (ledger_after_refund lid le bo am t d) bo =
     greatest (stat amount_borrowed d bo - am) 0"
  by (cases "users d bo"; cases "le = bo";
      simp add: stat_def users_after_refund refund_lender_def refund_borrower_def
        greatest_def)+

lemma most_recent_in: "most_recent b ls \<in> set (b # ls)"
  by (induction ls arbitrary: b) auto

lemma most_recent_latest:
  "x \<in> set (b # ls) \<Longrightarrow> date_created x \<le> date_created (most_recent b ls)"
proof (induction ls arbitrary: b x)
  case Nil
  then show ?case by simp
next
  case (Cons l ls)
  let ?b = "if date_created b < date_created l then l else b"
  have b: "date_created b \<le> date_created ?b" and l: "date_created l \<le> date_created ?b"
    by simp_all
  have m: "date_created ?b \<le> date_created (most_recent ?b ls)"
    by (rule Cons.IH) simp
  from Cons.prems consider "x = b" | "x = l" | "x \<in> set ls" by auto
  then show ?case
  proof cases
    case 1
    with b m show ?thesis by simp
  next
    case 2
    with l m show ?thesis by simp
  next
    case 3
    then have "date_created x \<le> date_created (most_recent ?b ls)"
      by (intro Cons.IH) simp
    then show ?thesis by simp
  qed
qed

lemma select_loan_for_refund_None:
  "select_loan_for_refund le bo am cu d = None \<longleftrightarrow>
     \<not> (\<exists>l \<in> set (loans d).
          lender l = le \<and> borrower l = bo \<and> amount l = am \<and> currency l = cu)"
proof -
  let ?P = "\<lambda>l. lender l = le \<and> borrower l = bo \<and> amount l = am \<and> currency l = cu"
  have "select_loan_for_refund le bo am cu d = None \<longleftrightarrow> filter ?P (loans d) = []"
    by (cases "filter ?P (loans d)") (simp_all add: select_loan_for_refund_def)
  also have "\<dots> \<longleftrightarrow> \<not> (\<exists>l \<in> set (loans d). ?P l)"
    by (simp only: filter_empty_conv) blast
  finally show ?thesis .
qed

lemma select_loan_for_refund_Some:
  assumes "select_loan_for_refund le bo am cu d = Some lid"
  shows "\<exists>l \<in> set (loans d).
           lender l = le \<and> borrower l = bo \<and> amount l = am \<and> currency l = cu \<and>
           db_id l = lid \<and>
           (\<forall>l' \<in> set (loans d).
              lender l' = le \<and> borrower l' = bo \<and> amount l' = am \<and> currency l' = cu \<longrightarrow>
              date_created l' \<le> date_created l)"
proof -
  let ?P = "\<lambda>l. lender l = le \<and> borrower l = bo \<and> amount l = am \<and> currency l = cu"
  from assms obtain b ls where f: "filter ?P (loans d) = b # ls"
    and lid: "lid = db_id (most_recent b ls)"
    by (cases "filter ?P (loans d)") (auto simp: select_loan_for_refund_def)
  let ?m = "most_recent b ls"
  have "?m \<in> set (filter ?P (loans d))"
    unfolding f by (rule most_recent_in)
  then have m: "?m \<in> set (loans d)" "?P ?m"
    by simp_all
  have latest: "date_created l' \<le> date_created ?m" if "l' \<in> set (loans d)" "?P l'" for l'
  proof -
    from that have "l' \<in> set (filter ?P (loans d))" by simp
    then have "l' \<in> set (b # ls)" by (simp only: f)
    then show ?thesis by (rule most_recent_latest)
  qed
  show ?thesis
    using m lid latest by blast
qed

lemma select_loan_for_refund_any_status:
  "select_loan_for_refund le bo am cu (d\<lparr>loans := map (\<lambda>l. l\<lparr>status := g l\<rparr>) (loans d)\<rparr>) =
   select_loan_for_refund le bo am cu d"
  by (rule select_loan_for_refund_map) simp_all

lemma refund_not_found:
  assumes "db_up e"
    and "parent_author c = Some p" and "lower p = lower (bot_username cfg)"
    and "str_in ''refunded'' (lower (body c))"
    and "refund_match c = Some (borrower_text, amount_text, currency_text, lender_text)"
    and "author c = Some a" and "lower a = lower lender_text"
    and "select_loan_for_refund (lower lender_text) (lower borrower_text)
           (Decimal amount_text) currency_text (db w) = None"
  shows "process_refund_command cfg e c w =
     Inr (send_reply
            (Refund_Not_Found (lower borrower_text) (Decimal amount_text) currency_text) w)"
  using assms
  by (simp add: process_refund_command_def Let_def)

text \<open>
  Claim C2 says that the Refund lookup returns only loans that are not refunded, so that a
  second Refund for the same lender, borrower, amount and currency finds no match. The
  lookup has no condition on the status. After Alice's refund of Bob's loan the loan is
  \<open>Refunded\<close> and the lookup still returns it; a second ``Refunded'' from Alice gets
  the success reply, not an error. With two loans from Alice to Bob, of 50.00 and 30.00
  USD, refunding the first twice leaves the second \<open>Confirmed\<close> while both counts
  are 0.
\<close>

theorem second_refund_succeeds:
  "map status (loans (db world_refunded)) = [Refunded] \<and>
   select_loan_for_refund ''alice'' ''bob'' 50 ''USD'' (db world_refunded) = Some 1 \<and>
   replies (comment_monitor_step sample_config (at_time 300) alice_refunds world_refunded) =
     replies world_refunded @ [Refund_Reply ''alice'' ''bob'' 50 ''USD''] \<and>
   \<not> list_ex is_error_reply
       (replies (comment_monitor_step sample_config (at_time 300) alice_refunds world_refunded)) \<and>
   map status (loans (db (comment_monitor_step sample_config (at_time 300) alice_refunds
       (comment_monitor_step sample_config (at_time 200) alice_refunds world_two_loans)))) =
     [Refunded, Confirmed] \<and>
   stat loans_as_lender (db (comment_monitor_step sample_config (at_time 300) alice_refunds
       (comment_monitor_step sample_config (at_time 200) alice_refunds world_two_loans)))
     ''alice'' = 0 \<and>
   stat loans_as_borrower (db (comment_monitor_step sample_config (at_time 300) alice_refunds
       (comment_monitor_step sample_config (at_time 200) alice_refunds world_two_loans)))
     ''bob'' = 0"
  unfolding world_refunded_eval world_two_loans_eval
  by (simp add: sample_defs handler_defs statement_defs lower_samples upper_samples Let_def
      stat_def)

text \<open>
  Claim C2, amended. The Refund lookup returns the most recently created loan that matches
  lender, borrower, amount and currency, whatever its status: a refunded loan matches as
  any other. So after a successful Refund, a second Refund command for the same lender,
  borrower, amount and currency finds the same loan again and succeeds again: the success
  reply and the moderator message are sent once more and the clamped decrements of the
  lender's and the borrower's counts and amounts are made once more. The not-found error is
  replied only when no loan with these four fields exists at all.
\<close>

theorem refund_finds_refunded_loan:
  assumes "db_up e" and "db_up e'"
    and "parent_author c = Some p" and "lower p = lower (bot_username cfg)"
    and "str_in ''refunded'' (lower (body c))"
    and "refund_match c = Some (borrower_text, amount_text, currency_text, lender_text)"
    and "author c = Some a" and "lower a = lower lender_text"
  shows "(select_loan_for_refund (lower lender_text) (lower borrower_text)
            (Decimal amount_text) currency_text
            ((db w)\<lparr>loans := map (\<lambda>l. l\<lparr>status := g l\<rparr>) (loans (db w))\<rparr>) =
          select_loan_for_refund (lower lender_text) (lower borrower_text)
            (Decimal amount_text) currency_text (db w)) \<and>
         ((\<exists>l \<in> set (loans (db w)).
              lender l = lower lender_text \<and> borrower l = lower borrower_text \<and>
              amount l = Decimal amount_text \<and> currency l = currency_text) \<or>
          process_refund_command cfg e c w =
            Inr (send_reply
                   (Refund_Not_Found (lower borrower_text) (Decimal amount_text)
                      currency_text) w)) \<and>
         ((\<exists>l \<in> set (loans (db w)).
              lender l = lower lender_text \<and> borrower l = lower borrower_text \<and>
              amount l = Decimal amount_text \<and> currency l = currency_text) \<longrightarrow>
          (\<exists>l \<in> set (loans (db w)). \<exists>w1 w2.
              lender l = lower lender_text \<and> borrower l = lower borrower_text \<and>
              amount l = Decimal amount_text \<and> currency l = currency_text \<and>
              (\<forall>l' \<in> set (loans (db w)).
                 lender l' = lower lender_text \<and> borrower l' = lower borrower_text \<and>
                 amount l' = Decimal amount_text \<and> currency l' = currency_text \<longrightarrow>
                 date_created l' \<le> date_created l) \<and>
              select_loan_for_refund (lower lender_text) (lower borrower_text)
                (Decimal amount_text) currency_text (db w) = Some (db_id l) \<and>
              process_refund_command cfg e c w = Inr w1 \<and>
              replies w1 = replies w @
                [Refund_Reply (lower lender_text) (lower borrower_text) (Decimal amount_text)
                   currency_text] \<and>
              (\<forall>l' \<in> set (loans (db w1)). db_id l' = db_id l \<longrightarrow> status l' = Refunded) \<and>
              select_loan_for_refund (lower lender_text) (lower borrower_text)
                (Decimal amount_text) currency_text (db w1) = Some (db_id l) \<and>
              process_refund_command cfg e' c w1 = Inr w2 \<and>
              replies w2 = replies w1 @
                [Refund_Reply (lower lender_text) (lower borrower_text) (Decimal amount_text)
                   currency_text] \<and>
              mod_mail w2 = mod_mail w1 @
                [Loan_Refunded (lower lender_text) (lower borrower_text) (Decimal amount_text)
                   currency_text] \<and>
              stat loans_as_lender (db w2) (lower lender_text) =
                greatest (stat loans_as_lender (db w1) (lower lender_text) - 1) 0 \<and>
              stat amount_lent (db w2) (lower lender_text) =
                greatest (stat amount_lent (db w1) (lower lender_text) - Decimal amount_text)
                  0 \<and>
              stat loans_as_borrower (db w2) (lower borrower_text) =
                greatest (stat loans_as_borrower (db w1) (lower borrower_text) - 1) 0 \<and>
              stat amount_borrowed (db w2) (lower borrower_text) =
                greatest
                  (stat amount_borrowed (db w1) (lower borrower_text) - Decimal amount_text)
                  0))"
proof (intro conjI impI)
  let ?le = "lower lender_text" and ?bo = "lower borrower_text"
  let ?am = "Decimal amount_text"
  let ?P = "\<lambda>l. lender l = ?le \<and> borrower l = ?bo \<and> amount l = ?am \<and>
                  currency l = currency_text"
  show "select_loan_for_refund ?le ?bo ?am currency_text
            ((db w)\<lparr>loans := map (\<lambda>l. l\<lparr>status := g l\<rparr>) (loans (db w))\<rparr>) =
          select_loan_for_refund ?le ?bo ?am currency_text (db w)"
    by (rule select_loan_for_refund_any_status)
  show "(\<exists>l \<in> set (loans (db w)). ?P l) \<or>
        process_refund_command cfg e c w =
          Inr (send_reply (Refund_Not_Found ?bo ?am currency_text) w)"
  proof (cases "\<exists>l \<in> set (loans (db w)). ?P l")
    case True
    then show ?thesis ..
  next
    case False
    then have "select_loan_for_refund ?le ?bo ?am currency_text (db w) = None"
      by (simp only: select_loan_for_refund_None not_False_eq_True)
    then have "process_refund_command cfg e c w =
        Inr (send_reply (Refund_Not_Found ?bo ?am currency_text) w)"
      by (rule refund_not_found [OF assms(1) assms(3-8)])
    then show ?thesis ..
  qed
  assume ex: "\<exists>l \<in> set (loans (db w)). ?P l"
  then have "select_loan_for_refund ?le ?bo ?am currency_text (db w) \<noteq> None"
    by (simp only: select_loan_for_refund_None not_not)
  then obtain lid where sel: "select_loan_for_refund ?le ?bo ?am currency_text (db w) = Some lid"
    by blast
  from select_loan_for_refund_Some [OF sel]
  obtain l where l: "l \<in> set (loans (db w))" "?P l" "db_id l = lid"
    and latest: "\<forall>l' \<in> set (loans (db w)). ?P l' \<longrightarrow> date_created l' \<le> date_created l"
    by blast
  let ?d1 = "ledger_after_refund lid ?le ?bo ?am (now e) (db w)"
  let ?w1 = "w\<lparr>db := ?d1,
               replies := replies w @ [Refund_Reply ?le ?bo ?am currency_text],
               mod_mail := mod_mail w @ [Loan_Refunded ?le ?bo ?am currency_text]\<rparr>"
  let ?d2 = "ledger_after_refund lid ?le ?bo ?am (now e') ?d1"
  let ?w2 = "?w1\<lparr>db := ?d2,
               replies := replies ?w1 @ [Refund_Reply ?le ?bo ?am currency_text],
               mod_mail := mod_mail ?w1 @ [Loan_Refunded ?le ?bo ?am currency_text]\<rparr>"
  have run1: "process_refund_command cfg e c w = Inr ?w1"
    by (rule refund_accepted [OF assms(1) assms(3-8) sel])
  have db1: "db ?w1 = ?d1" by simp
  have again: "select_loan_for_refund ?le ?bo ?am currency_text (db ?w1) = Some lid"
    unfolding db1 by (simp only: select_loan_for_refund_after sel)
  have run2: "process_refund_command cfg e' c ?w1 = Inr ?w2"
    using refund_accepted [OF assms(2) assms(3-8) again] by simp
  have st: "\<forall>l' \<in> set (loans (db ?w1)). db_id l' = lid \<longrightarrow> status l' = Refunded"
    unfolding db1 by (blast intro: status_after_refund)
  have db2: "db ?w2 = ledger_after_refund lid ?le ?bo ?am (now e') (db ?w1)" by simp
  have s1: "stat loans_as_lender (db ?w2) ?le =
       greatest (stat loans_as_lender (db ?w1) ?le - 1) 0"
    unfolding db2 by (rule stat_lender_after_refund(1))
  have s2: "stat amount_lent (db ?w2) ?le =
       greatest (stat amount_lent (db ?w1) ?le - ?am) 0"
    unfolding db2 by (rule stat_lender_after_refund(2)) (rule Decimal_nonneg)
  have s3: "stat loans_as_borrower (db ?w2) ?bo =
       greatest (stat loans_as_borrower (db ?w1) ?bo - 1) 0"
    unfolding db2 by (rule stat_borrower_after_refund(1))
  have s4: "stat amount_borrowed (db ?w2) ?bo =
       greatest (stat amount_borrowed (db ?w1) ?bo - ?am) 0"
    unfolding db2 by (rule stat_borrower_after_refund(2)) (rule Decimal_nonneg)
  have r1: "replies ?w1 = replies w @ [Refund_Reply ?le ?bo ?am currency_text]"
    by simp
  have r2: "replies ?w2 = replies ?w1 @ [Refund_Reply ?le ?bo ?am currency_text]"
    "mod_mail ?w2 = mod_mail ?w1 @ [Loan_Refunded ?le ?bo ?am currency_text]"
    by simp_all
  have sel': "select_loan_for_refund ?le ?bo ?am currency_text (db w) = Some (db_id l)"
    and again': "select_loan_for_refund ?le ?bo ?am currency_text (db ?w1) = Some (db_id l)"
    and st': "\<forall>l' \<in> set (loans (db ?w1)). db_id l' = db_id l \<longrightarrow> status l' = Refunded"
    using sel again st l(3) by simp_all
  show "\<exists>l \<in> set (loans (db w)). \<exists>w1 w2.
              lender l = ?le \<and> borrower l = ?bo \<and> amount l = ?am \<and>
              currency l = currency_text \<and>
              (\<forall>l' \<in> set (loans (db w)). ?P l' \<longrightarrow> date_created l' \<le> date_created l) \<and>
              select_loan_for_refund ?le ?bo ?am currency_text (db w) = Some (db_id l) \<and>
              process_refund_command cfg e c w = Inr w1 \<and>
              replies w1 = replies w @ [Refund_Reply ?le ?bo ?am currency_text] \<and>
              (\<forall>l' \<in> set (loans (db w1)). db_id l' = db_id l \<longrightarrow> status l' = Refunded) \<and>
              select_loan_for_refund ?le ?bo ?am currency_text (db w1) = Some (db_id l) \<and>
              process_refund_command cfg e' c w1 = Inr w2 \<and>
              replies w2 = replies w1 @ [Refund_Reply ?le ?bo ?am currency_text] \<and>
              mod_mail w2 = mod_mail w1 @ [Loan_Refunded ?le ?bo ?am currency_text] \<and>
              stat loans_as_lender (db w2) ?le =
                greatest (stat loans_as_lender (db w1) ?le - 1) 0 \<and>
              stat amount_lent (db w2) ?le =
                greatest (stat amount_lent (db w1) ?le - ?am) 0 \<and>
              stat loans_as_borrower (db w2) ?bo =
                greatest (stat loans_as_borrower (db w1) ?bo - 1) 0 \<and>
              stat amount_borrowed (db w2) ?bo =
                greatest (stat amount_borrowed (db w1) ?bo - ?am) 0"
    apply (rule bexI [OF _ l(1)])
    apply (rule exI [of _ ?w1])
    apply (rule exI [of _ ?w2])
    apply (intro conjI)
    apply (rule l(2) [THEN conjunct1])
    apply (rule l(2) [THEN conjunct2, THEN conjunct1])
    apply (rule l(2) [THEN conjunct2, THEN conjunct2, THEN conjunct1])
    apply (rule l(2) [THEN conjunct2, THEN conjunct2, THEN conjunct2])
    apply (rule latest)
    apply (rule sel')
    apply (rule run1)
    apply (rule r1)
    apply (rule st')
    apply (rule again')
    apply (rule run2)
    apply (rule r2(1))
    apply (rule r2(2))
    apply (rule s1)
    apply (rule s2)
    apply (rule s3)
    apply (rule s4)
    done
qed

theorem refund_finds_refunded_loan_witness:
  "(\<exists>w1 w2.
     process_refund_command sample_config (at_time 200) alice_refunds world_confirmed = Inr w1 \<and>
     (\<forall>l \<in> set (loans (db w1)). db_id l = 1 \<longrightarrow> status l = Refunded) \<and>
     select_loan_for_refund ''alice'' ''bob'' 50 ''USD'' (db w1) = Some 1 \<and>
     process_refund_command sample_config (at_time 300) alice_refunds w1 = Inr w2 \<and>
     replies w2 = replies w1 @ [Refund_Reply ''alice'' ''bob'' 50 ''USD''] \<and>
     mod_mail w2 = mod_mail w1 @ [Loan_Refunded ''alice'' ''bob'' 50 ''USD'']) \<and>
   loans (db init_world) = [] \<and>
   process_refund_command sample_config (at_time 200) alice_refunds init_world =
     Inr (send_reply (Refund_Not_Found ''bob'' 50 ''USD'') init_world)"
proof -
  have h1: "db_up (at_time 200)" and h2: "db_up (at_time 300)"
    by (simp_all add: at_time_def)
  have h3: "parent_author alice_refunds = Some ''LoanCentralBot''"
    by (simp add: sample_defs)
  have h4: "lower ''LoanCentralBot'' = lower (bot_username sample_config)"
    by (simp add: sample_defs)
  have h5: "str_in ''refunded'' (lower (body alice_refunds))"
    by (simp add: sample_defs lower_samples)
  have h6: "refund_match alice_refunds = Some (''bob'', Decimal_Text 5000 2, ''USD'', ''alice'')"
    by (simp add: sample_defs)
  have h7: "author alice_refunds = Some ''Alice''"
    by (simp add: sample_defs)
  have h8: "lower ''Alice'' = lower ''alice''"
    by (simp add: lower_samples)
  have d: "Decimal (Decimal_Text 5000 2) = 50" by (simp add: Decimal_def)
  have found: "select_loan_for_refund ''alice'' ''bob'' 50 ''USD'' (db world_confirmed) = Some 1"
    by (simp add: world_confirmed_eval select_loan_for_refund_def)
  have ex: "\<exists>l \<in> set (loans (db world_confirmed)).
      lender l = ''alice'' \<and> borrower l = ''bob'' \<and> amount l = 50 \<and> currency l = ''USD''"
    by (simp add: world_confirmed_eval)
  have none: "loans (db init_world) = []"
    by (simp add: init_world_def empty_ledger_def)
  note at_confirmed =
    refund_finds_refunded_loan [OF h1 h2 h3 h4 h5 h6 h7 h8, where w = world_confirmed,
      unfolded lower_samples d]
  note at_start =
    refund_finds_refunded_loan [OF h1 h2 h3 h4 h5 h6 h7 h8, where w = init_world,
      unfolded lower_samples d]
  from at_confirmed [THEN conjunct2, THEN conjunct2, rule_format, OF ex]
  obtain l :: loan and w1 w2 where
    "select_loan_for_refund ''alice'' ''bob'' 50 ''USD'' (db world_confirmed) = Some (db_id l)"
    and r: "process_refund_command sample_config (at_time 200) alice_refunds world_confirmed =
        Inr w1"
      "\<forall>l' \<in> set (loans (db w1)). db_id l' = db_id l \<longrightarrow> status l' = Refunded"
      "select_loan_for_refund ''alice'' ''bob'' 50 ''USD'' (db w1) = Some (db_id l)"
      "process_refund_command sample_config (at_time 300) alice_refunds w1 = Inr w2"
      "replies w2 = replies w1 @ [Refund_Reply ''alice'' ''bob'' 50 ''USD'']"
      "mod_mail w2 = mod_mail w1 @ [Loan_Refunded ''alice'' ''bob'' 50 ''USD'']"
    by blast
  with found have "db_id l = 1" by simp
  with r have first: "\<exists>w1 w2.
     process_refund_command sample_config (at_time 200) alice_refunds world_confirmed = Inr w1 \<and>
     (\<forall>l \<in> set (loans (db w1)). db_id l = 1 \<longrightarrow> status l = Refunded) \<and>
     select_loan_for_refund ''alice'' ''bob'' 50 ''USD'' (db w1) = Some 1 \<and>
     process_refund_command sample_config (at_time 300) alice_refunds w1 = Inr w2 \<and>
     replies w2 = replies w1 @ [Refund_Reply ''alice'' ''bob'' 50 ''USD''] \<and>
     mod_mail w2 = mod_mail w1 @ [Loan_Refunded ''alice'' ''bob'' 50 ''USD'']"
    by auto
  from at_start [THEN conjunct2, THEN conjunct1] none
  have second: "process_refund_command sample_config (at_time 200) alice_refunds init_world =
     Inr (send_reply (Refund_Not_Found ''bob'' 50 ''USD'') init_world)"
    by simp
  from first none second show ?thesis by blast
qed

section \<open>A confirmation\<close>

lemma loans_upsert [simp]:
  "loans (upsert_lender u amt t d) = loans d"
  "loans (upsert_borrower u amt t d) = loans d"
  by (simp_all add: upsert_lender_def upsert_borrower_def split: option.splits)

lemma upsert_creates_row:
  "users (upsert_lender u amt t d) u \<noteq> None"
  "users (upsert_borrower u amt t d) u \<noteq> None"
  "users d v \<noteq> None \<Longrightarrow> users (upsert_borrower u amt t d) v \<noteq> None"
  by (simp_all add: upsert_lender_def upsert_borrower_def split: option.splits)

lemma stat_upsert_lender:
  "stat loans_as_lender (upsert_lender u amt t d) u = stat loans_as_lender d u + 1"
  "stat amount_lent (upsert_lender u amt t d) u = stat amount_lent d u + amt"
  "stat loans_as_borrower (upsert_lender u amt t d) v = stat loans_as_borrower d v"
  "stat amount_borrowed (upsert_lender u amt t d) v = stat amount_borrowed d v"
  by (simp_all add: stat_def upsert_lender_def split: option.splits)

lemma stat_upsert_borrower:
  "stat loans_as_borrower (upsert_borrower u amt t d) u = stat loans_as_borrower d u + 1"
  "stat amount_borrowed (upsert_borrower u amt t d) u = stat amount_borrowed d u + amt"
  "stat loans_as_lender (upsert_borrower u amt t d) v = stat loans_as_lender d v"
  "stat amount_lent (upsert_borrower u amt t d) v = stat amount_lent d v"
  by (simp_all add: stat_def upsert_borrower_def split: option.splits)

lemma insert_loan_accepted:
  assumes "\<forall>l \<in> set (loans d). loan_id l \<noteq> lid \<and> db_id l \<noteq> Suc (loans_id_seq d)"
  shows "insert_loan lid le bo am cu created url st d =
     Inr (d\<lparr>loans := loans d @
                [\<lparr>db_id = Suc (loans_id_seq d), loan_id = lid, lender = le, borrower = bo,
                  amount = am, currency = cu, date_created = created, original_thread = url,
                  status = st, amount_repaid = 0, last_updated = None\<rparr>],
             loans_id_seq := Suc (loans_id_seq d)\<rparr>, Suc (loans_id_seq d))"
proof -
  from assms have "\<not> list_ex (\<lambda>l. loan_id l = lid \<or> db_id l = Suc (loans_id_seq d)) (loans d)"
    by (auto simp: list_ex_iff)
  then show ?thesis
    by (simp add: insert_loan_def Let_def)
qed

lemma stat_users_cong: "users d = users d' \<Longrightarrow> stat f d u = stat f d' u"
  by (simp add: stat_def)

text \<open>
  Claim C4. For every Confirm command that commits (a connection is there, the comment
  matches, and the new row breaks neither the \<^verbatim>\<open>UNIQUE\<close> constraint on \<open>loan_id\<close>
  nor the primary key): the created loan has \<open>amount_repaid = 0\<close> and status
  \<open>Confirmed\<close>; the named lender's \<open>loans_as_lender\<close> and the author's
  \<open>loans_as_borrower\<close> each grow by exactly 1, \<open>amount_lent\<close> and
  \<open>amount_borrowed\<close> each by exactly the principal; and both have a row of
  \<^verbatim>\<open>users\<close> afterwards (an aggregate of a user with no row counts as 0, so a new row
  starts with these values).
\<close>

theorem confirm_effect:
  assumes "db_up e"
    and "confirm_match c = Some (name, amount_text, currency_text)"
    and "author c = Some a"
    and "\<forall>l \<in> set (loans (db w)).
           loan_id l \<noteq> generate_loan_id e \<and> db_id l \<noteq> Suc (loans_id_seq (db w))"
  shows "\<exists>w' new.
     process_confirm_command e c w = Inr w' \<and>
     loans (db w') = loans (db w) @ [new] \<and>
     lender new = lower name \<and> borrower new = lower a \<and>
     amount new = Decimal amount_text \<and> currency new = upper currency_text \<and>
     amount_repaid new = 0 \<and> status new = Confirmed \<and>
     users (db w') (lower name) \<noteq> None \<and> users (db w') (lower a) \<noteq> None \<and>
     stat loans_as_lender (db w') (lower name) =
       stat loans_as_lender (db w) (lower name) + 1 \<and>
     stat amount_lent (db w') (lower name) =
       stat amount_lent (db w) (lower name) + Decimal amount_text \<and>
     stat loans_as_borrower (db w') (lower a) =
       stat loans_as_borrower (db w) (lower a) + 1 \<and>
     stat amount_borrowed (db w') (lower a) =
       stat amount_borrowed (db w) (lower a) + Decimal amount_text \<and>
     replies w' = replies w @
       [Confirm_Reply (lower a) (Decimal amount_text) (upper currency_text) (lower name)
          (db_id new)]"
proof -
  let ?le = "lower name" and ?bo = "lower a" and ?am = "Decimal amount_text"
  let ?cu = "upper currency_text"
  let ?new = "\<lparr>db_id = Suc (loans_id_seq (db w)), loan_id = generate_loan_id e,
               lender = ?le, borrower = ?bo, amount = ?am, currency = ?cu,
               date_created = now e,
               original_thread = ''https://www.reddit.com'' @ post_permalink c,
               status = Confirmed, amount_repaid = 0, last_updated = None\<rparr>"
  let ?d1 = "(db w)\<lparr>loans := loans (db w) @ [?new],
                     loans_id_seq := Suc (loans_id_seq (db w))\<rparr>"
  let ?d2 = "upsert_lender ?le ?am (now e) ?d1"
  let ?d3 = "upsert_borrower ?bo ?am (now e) ?d2"
  let ?w = "send_reply (Confirm_Reply ?bo ?am ?cu ?le (Suc (loans_id_seq (db w))))
              (w\<lparr>db := ?d3\<rparr>)"
  have run: "process_confirm_command e c w = Inr ?w"
    using assms(1-3)
    by (simp add: process_confirm_command_def Let_def insert_loan_accepted [OF assms(4)])
  have db: "db ?w = ?d3" by (simp add: send_reply_def)
  have l: "loans (db ?w) = loans (db w) @ [?new]"
    unfolding db by simp
  have u1: "stat f ?d1 u = stat f (db w) u" for f :: "user_stats \<Rightarrow> 'b::zero" and u
    by (rule stat_users_cong) simp
  have s1: "stat loans_as_lender (db ?w) ?le = stat loans_as_lender (db w) ?le + 1"
    unfolding db by (simp only: stat_upsert_borrower stat_upsert_lender u1)
  have s2: "stat amount_lent (db ?w) ?le = stat amount_lent (db w) ?le + ?am"
    unfolding db by (simp only: stat_upsert_borrower stat_upsert_lender u1)
  have s3: "stat loans_as_borrower (db ?w) ?bo = stat loans_as_borrower (db w) ?bo + 1"
    unfolding db by (simp only: stat_upsert_borrower stat_upsert_lender u1)
  have s4: "stat amount_borrowed (db ?w) ?bo = stat amount_borrowed (db w) ?bo + ?am"
    unfolding db by (simp only: stat_upsert_borrower stat_upsert_lender u1)
  have e1: "users (db ?w) ?le \<noteq> None"
    unfolding db by (rule upsert_creates_row(3)) (rule upsert_creates_row(1))
  have e2: "users (db ?w) ?bo \<noteq> None"
    unfolding db by (rule upsert_creates_row(2))
  have rp: "replies ?w = replies w @ [Confirm_Reply ?bo ?am ?cu ?le (db_id ?new)]"
    by (simp add: send_reply_def)
  have f: "lender ?new = ?le" "borrower ?new = ?bo" "amount ?new = ?am" "currency ?new = ?cu"
    "amount_repaid ?new = 0" "status ?new = Confirmed"
    by simp_all
  show ?thesis
    using run l f e1 e2 s1 s2 s3 s4 rp by blast
qed

theorem confirm_effect_witness:
  "\<exists>w' new.
     process_confirm_command (at_time 150) bob_confirms_again world_confirmed = Inr w' \<and>
     loans (db w') = loans (db world_confirmed) @ [new] \<and>
     lender new = ''alice'' \<and> borrower new = ''bob'' \<and> amount new = 30 \<and>
     currency new = ''USD'' \<and> amount_repaid new = 0 \<and> status new = Confirmed \<and>
     stat loans_as_lender (db w') ''alice'' = 2 \<and> stat amount_lent (db w') ''alice'' = 80 \<and>
     stat loans_as_borrower (db w') ''bob'' = 2 \<and> stat amount_borrowed (db w') ''bob'' = 80"
proof -
  have h1: "db_up (at_time 150)" by (simp add: at_time_def)
  have h2: "confirm_match bob_confirms_again = Some (''Alice'', Decimal_Text 3000 2, ''USD'')"
    by (simp add: sample_defs)
  have h3: "author bob_confirms_again = Some ''Bob''"
    by (simp add: sample_defs)
  have h4: "\<forall>l \<in> set (loans (db world_confirmed)).
      loan_id l \<noteq> generate_loan_id (at_time 150) \<and>
      db_id l \<noteq> Suc (loans_id_seq (db world_confirmed))"
    by (simp add: world_confirmed_eval generate_loan_id_def at_time_def)
  have d: "Decimal (Decimal_Text 3000 2) = 30" by (simp add: Decimal_def)
  have st: "stat loans_as_lender (db world_confirmed) ''alice'' = 1"
    "stat amount_lent (db world_confirmed) ''alice'' = 50"
    "stat loans_as_borrower (db world_confirmed) ''bob'' = 1"
    "stat amount_borrowed (db world_confirmed) ''bob'' = 50"
    by (simp_all add: stat_def world_confirmed_eval)
  from confirm_effect [OF h1 h2 h3 h4]
  show ?thesis
    unfolding lower_samples upper_samples d st by auto
qed

section \<open>The invariant of the ledger\<close>

text \<open>
  Every statement of every handler keeps \<open>ledger_ok\<close>: amounts come from
  \<open>Decimal\<close> and are not negative, every decrement is clamped, and nothing writes a
  positive number to the unpaid fields. So it holds in every reachable world.
\<close>

lemma ledger_ok_empty: "ledger_ok empty_ledger"
  by (simp add: ledger_ok_def empty_ledger_def)

lemma ledger_ok_cong:
  "loans d' = loans d \<Longrightarrow> users d' = users d \<Longrightarrow> ledger_ok d' = ledger_ok d"
  by (simp add: ledger_ok_def)

lemma ledger_ok_rollback: "ledger_ok (rollback_insert d) = ledger_ok d"
  by (rule ledger_ok_cong) (simp_all add: rollback_insert_def)

lemma ledger_okI:
  assumes "\<And>l. l \<in> set (loans d) \<Longrightarrow> 0 \<le> amount l"
    and "\<And>u r. users d u = Some r \<Longrightarrow> nonneg_stats r \<and> no_unpaid r"
  shows "ledger_ok d"
  using assms unfolding ledger_ok_def by blast

lemma ledger_ok_loan: "ledger_ok d \<Longrightarrow> l \<in> set (loans d) \<Longrightarrow> 0 \<le> amount l"
  unfolding ledger_ok_def by blast

lemma ledger_ok_user:
  "ledger_ok d \<Longrightarrow> users d u = Some r \<Longrightarrow> nonneg_stats r \<and> no_unpaid r"
  unfolding ledger_ok_def by blast

lemma ledger_ok_update_user:
  assumes "ledger_ok d"
    and "\<And>r. nonneg_stats r \<Longrightarrow> no_unpaid r \<Longrightarrow> nonneg_stats (f r) \<and> no_unpaid (f r)"
  shows "ledger_ok (update_user u f d)"
proof (rule ledger_okI)
  fix l assume "l \<in> set (loans (update_user u f d))"
  with assms(1) show "0 \<le> amount l" by (simp add: ledger_ok_loan)
next
  fix v r assume r: "users (update_user u f d) v = Some r"
  show "nonneg_stats r \<and> no_unpaid r"
  proof (cases "v = u")
    case True
    with r obtain r0 where r0: "users d u = Some r0" "r = f r0"
      by (auto simp: users_update_user)
    from ledger_ok_user [OF assms(1) r0(1)] assms(2) r0(2) show ?thesis by blast
  next
    case False
    with r have "users d v = Some r" by (simp add: users_update_user)
    with assms(1) show ?thesis by (rule ledger_ok_user)
  qed
qed

lemma greatest_nonneg: "0 \<le> greatest a (0::'a::{linorder,zero})"
  by (simp add: greatest_def not_less)

lemma row_ok_add_repaid:
  "0 \<le> p \<Longrightarrow> nonneg_stats r \<Longrightarrow> no_unpaid r \<Longrightarrow>
     nonneg_stats (add_repaid p t r) \<and> no_unpaid (add_repaid p t r)"
  by (simp add: nonneg_stats_def no_unpaid_def add_repaid_def)

lemma row_ok_settle_unpaid:
  "0 \<le> la \<Longrightarrow> nonneg_stats r \<Longrightarrow> no_unpaid r \<Longrightarrow>
     nonneg_stats (settle_unpaid la t r) \<and> no_unpaid (settle_unpaid la t r)"
  by (simp add: nonneg_stats_def no_unpaid_def settle_unpaid_def greatest_def)

lemma row_ok_refund_lender:
  "nonneg_stats r \<Longrightarrow> no_unpaid r \<Longrightarrow>
     nonneg_stats (refund_lender am t r) \<and> no_unpaid (refund_lender am t r)"
  by (simp add: nonneg_stats_def no_unpaid_def refund_lender_def greatest_def)

lemma row_ok_refund_borrower:
  "nonneg_stats r \<Longrightarrow> no_unpaid r \<Longrightarrow>
     nonneg_stats (refund_borrower am t r) \<and> no_unpaid (refund_borrower am t r)"
  by (simp add: nonneg_stats_def no_unpaid_def refund_borrower_def greatest_def)

lemma map_amount_unchanged:
  "(\<And>x. amount (f x) = amount x) \<Longrightarrow> map amount (map f xs) = map amount xs"
  by (induction xs) simp_all

lemma ledger_ok_amounts:
  "ledger_ok d \<longleftrightarrow>
     (\<forall>a \<in> set (map amount (loans d)). 0 \<le> a) \<and>
     (\<forall>u r. users d u = Some r \<longrightarrow> nonneg_stats r \<and> no_unpaid r)"
  by (simp add: ledger_ok_def)

lemma ledger_ok_update_loan_payment:
  "ledger_ok (update_loan_payment lid r s t d) = ledger_ok d"
proof -
  have l: "loans (update_loan_payment lid r s t d) =
      map (\<lambda>l. if db_id l = lid
                then l\<lparr>amount_repaid := r, status := s, last_updated := Some t\<rparr> else l)
        (loans d)"
    by (simp add: update_loan_payment_def)
  have "map amount (loans (update_loan_payment lid r s t d)) = map amount (loans d)"
    unfolding l by (rule map_amount_unchanged) simp
  then show ?thesis
    by (simp only: ledger_ok_amounts users_update_loan_payment)
qed

lemma ledger_ok_update_loan_refunded:
  "ledger_ok (update_loan_refunded lid t d) = ledger_ok d"
proof -
  have l: "loans (update_loan_refunded lid t d) =
      map (\<lambda>l. if db_id l = lid then l\<lparr>status := Refunded, last_updated := Some t\<rparr> else l)
        (loans d)"
    by (simp add: update_loan_refunded_def)
  have "map amount (loans (update_loan_refunded lid t d)) = map amount (loans d)"
    unfolding l by (rule map_amount_unchanged) simp
  then show ?thesis
    by (simp only: ledger_ok_amounts users_update_loan_refunded)
qed

lemma ledger_ok_after_payment:
  assumes "ledger_ok d" and "row \<in> set (loans d)" and "0 \<le> paid"
  shows "ledger_ok (ledger_after_payment lid row paid t d)"
proof -
  from assms(1,2) have la: "0 \<le> amount row" by (simp add: ledger_ok_def)
  let ?d1 = "update_loan_payment lid (decimal_add (amount_repaid row) paid)
               (if amount row \<le> decimal_add (amount_repaid row) paid
                then Repaid else Partially_Repaid) t d"
  have 1: "ledger_ok ?d1"
    using assms(1) by (simp only: ledger_ok_update_loan_payment)
  have 2: "ledger_ok (update_user (borrower row) (add_repaid paid t) ?d1)"
    using 1 by (rule ledger_ok_update_user) (rule row_ok_add_repaid [OF assms(3)])
  have 3: "ledger_ok (update_user (borrower row) (settle_unpaid (amount row) t)
             (update_user (borrower row) (add_repaid paid t) ?d1))"
    using 2 by (rule ledger_ok_update_user) (rule row_ok_settle_unpaid [OF la])
  show ?thesis
  proof (cases "amount row \<le> decimal_add (amount_repaid row) paid")
    case True
    with 3 show ?thesis by (simp add: ledger_after_payment_def Let_def)
  next
    case False
    with 2 show ?thesis by (simp add: ledger_after_payment_def Let_def)
  qed
qed

lemma ledger_ok_after_refund:
  assumes "ledger_ok d"
  shows "ledger_ok (ledger_after_refund lid le bo am t d)"
proof -
  have 1: "ledger_ok (update_loan_refunded lid t d)"
    using assms by (simp only: ledger_ok_update_loan_refunded)
  have 2: "ledger_ok (update_user le (refund_lender am t) (update_loan_refunded lid t d))"
    using 1 by (rule ledger_ok_update_user) (rule row_ok_refund_lender)
  show ?thesis
    unfolding ledger_after_refund_def
    using 2 by (rule ledger_ok_update_user) (rule row_ok_refund_borrower)
qed

lemma ledger_ok_upsert_lender:
  assumes "ledger_ok d" and "0 \<le> am"
  shows "ledger_ok (upsert_lender u am t d)"
proof (rule ledger_okI)
  fix l assume "l \<in> set (loans (upsert_lender u am t d))"
  with assms(1) show "0 \<le> amount l" by (simp add: ledger_ok_loan)
next
  fix v r assume r: "users (upsert_lender u am t d) v = Some r"
  show "nonneg_stats r \<and> no_unpaid r"
  proof (cases "v = u")
    case False
    with r have "users d v = Some r"
      by (simp add: upsert_lender_def split: option.splits)
    with assms(1) show ?thesis by (rule ledger_ok_user)
  next
    case True
    show ?thesis
    proof (cases "users d u")
      case None
      with r True assms(2) show ?thesis
        by (auto simp: upsert_lender_def nonneg_stats_def no_unpaid_def)
    next
      case (Some r0)
      with assms(1) have "nonneg_stats r0 \<and> no_unpaid r0" by (simp add: ledger_ok_user)
      with r True Some assms(2) show ?thesis
        by (auto simp: upsert_lender_def nonneg_stats_def no_unpaid_def)
    qed
  qed
qed

lemma ledger_ok_upsert_borrower:
  assumes "ledger_ok d" and "0 \<le> am"
  shows "ledger_ok (upsert_borrower u am t d)"
proof (rule ledger_okI)
  fix l assume "l \<in> set (loans (upsert_borrower u am t d))"
  with assms(1) show "0 \<le> amount l" by (simp add: ledger_ok_loan)
next
  fix v r assume r: "users (upsert_borrower u am t d) v = Some r"
  show "nonneg_stats r \<and> no_unpaid r"
  proof (cases "v = u")
    case False
    with r have "users d v = Some r"
      by (simp add: upsert_borrower_def split: option.splits)
    with assms(1) show ?thesis by (rule ledger_ok_user)
  next
    case True
    show ?thesis
    proof (cases "users d u")
      case None
      with r True assms(2) show ?thesis
        by (auto simp: upsert_borrower_def nonneg_stats_def no_unpaid_def)
    next
      case (Some r0)
      with assms(1) have "nonneg_stats r0 \<and> no_unpaid r0" by (simp add: ledger_ok_user)
      with r True Some assms(2) show ?thesis
        by (auto simp: upsert_borrower_def nonneg_stats_def no_unpaid_def)
    qed
  qed
qed

lemma ledger_ok_insert_loan:
  assumes "ledger_ok d" and "0 \<le> am"
    and "insert_loan lid le bo am cu created url st d = Inr (d1, n)"
  shows "ledger_ok d1"
proof -
  from assms(3) have d1: "loans d1 = loans d @
      [\<lparr>db_id = n, loan_id = lid, lender = le, borrower = bo, amount = am, currency = cu,
        date_created = created, original_thread = url, status = st, amount_repaid = 0,
        last_updated = None\<rparr>]" "users d1 = users d"
    by (auto simp: insert_loan_def Let_def split: if_splits)
  with assms(1,2) show ?thesis
    by (auto simp: ledger_ok_def)
qed

lemma db_send_reply [simp]: "db (send_reply r w) = db w"
  by (simp add: send_reply_def)

lemma loan_keeps_db:
  "process_loan_command c w = Inr w' \<Longrightarrow> db w' = db w"
  by (auto simp: process_loan_command_def Let_def split: option.splits prod.splits if_splits)

lemma stats_keeps_db:
  "process_stats_command c w = Inr w' \<Longrightarrow> db w' = db w"
  by (auto simp: process_stats_command_def split: option.splits)

lemma paid_keeps_ledger_ok:
  assumes ok: "ledger_ok (db w)" and run: "process_paid_command e c w = Inr w'"
  shows "ledger_ok (db w')"
proof (cases "paid_match c")
  case None
  with run have "w' = w" by (simp add: process_paid_command_def)
  with ok show ?thesis by simp
next
  case (Some m)
  obtain loan_id_text amount_text currency_text
    where m: "paid_match c = Some (loan_id_text, amount_text, currency_text)"
    using Some by (cases m) simp
  show ?thesis
  proof (cases "author c")
    case None
    with m run show ?thesis by (simp add: process_paid_command_def)
  next
    case a: (Some a)
    show ?thesis
    proof (cases "db_up e")
      case False
      with m a run have "w' = w" by (simp add: process_paid_command_def)
      with ok show ?thesis by simp
    next
      case up: True
      show ?thesis
      proof (cases "int4_in loan_id_text")
        case None
        with m a up run have "w' = w"
          by (simp add: process_paid_command_def select_loan_for_payment_def)
        with ok show ?thesis by simp
      next
        case lid: (Some lid)
        show ?thesis
        proof (cases "loan_of_lender lid (lower a) (db w)")
          case None
          with m a up lid run have "db w' = db w"
            by (auto simp: process_paid_command_def select_loan_for_payment_def)
          with ok show ?thesis by simp
        next
          case row: (Some row)
          show ?thesis
          proof (cases "currency row = upper currency_text")
            case False
            with m a up lid row run have "db w' = db w"
              by (auto simp: process_paid_command_def select_loan_for_payment_def)
            with ok show ?thesis by simp
          next
            case True
            from paid_accepted [OF up m a lid row True] run
            have "db w' = ledger_after_payment lid row (Decimal amount_text) (now e) (db w)"
              by auto
            moreover have "row \<in> set (loans (db w))"
              using row by (simp add: loan_of_lender_row)
            ultimately show ?thesis
              using ok by (simp add: ledger_ok_after_payment Decimal_nonneg)
          qed
        qed
      qed
    qed
  qed
qed

lemma refund_db_cases:
  "process_refund_command cfg e c w = Inr w' \<Longrightarrow>
     db w' = db w \<or>
     db w' =
       (case refund_match c of
          None \<Rightarrow> db w
        | Some (borrower_text, amount_text, currency_text, lender_text) \<Rightarrow>
            (case select_loan_for_refund (lower lender_text) (lower borrower_text)
                    (Decimal amount_text) currency_text (db w) of
               None \<Rightarrow> db w
             | Some lid \<Rightarrow>
                 ledger_after_refund lid (lower lender_text) (lower borrower_text)
                   (Decimal amount_text) (now e) (db w)))"
  by (auto simp: process_refund_command_def Let_def ledger_after_refund_def
      split: option.splits prod.splits if_splits)

lemma refund_keeps_ledger_ok:
  assumes "ledger_ok (db w)" and "process_refund_command cfg e c w = Inr w'"
  shows "ledger_ok (db w')"
  using refund_db_cases [OF assms(2)] assms(1)
  by (auto simp: ledger_ok_after_refund split: option.splits prod.splits)

lemma confirm_db_cases:
  "process_confirm_command e c w = Inr w' \<Longrightarrow>
     db w' = db w \<or> db w' = rollback_insert (db w) \<or>
     db w' =
       (case confirm_match c of
          None \<Rightarrow> db w
        | Some (name, amount_text, currency_text) \<Rightarrow>
            (case author c of
               None \<Rightarrow> db w
             | Some a \<Rightarrow>
                 (case insert_loan (generate_loan_id e) (lower name) (lower a)
                         (Decimal amount_text) (upper currency_text) (now e)
                         (''https://www.reddit.com'' @ post_permalink c) Confirmed (db w) of
                    Inl err \<Rightarrow> db w
                  | Inr (d1, n) \<Rightarrow>
                      upsert_borrower (lower a) (Decimal amount_text) (now e)
                        (upsert_lender (lower name) (Decimal amount_text) (now e) d1))))"
  by (auto simp: process_confirm_command_def Let_def
      split: option.splits prod.splits if_splits sum.splits)

lemma confirm_keeps_ledger_ok:
  assumes "ledger_ok (db w)" and "process_confirm_command e c w = Inr w'"
  shows "ledger_ok (db w')"
  using confirm_db_cases [OF assms(2)] assms(1)
  by (auto simp: ledger_ok_rollback Decimal_nonneg
      intro!: ledger_ok_upsert_borrower ledger_ok_upsert_lender
      elim: ledger_ok_insert_loan [OF _ Decimal_nonneg]
      split: option.splits prod.splits sum.splits)

lemma step_keeps_ledger_ok:
  assumes "ledger_ok (db w)"
  shows "ledger_ok (db (comment_monitor_step cfg e c w))"
proof -
  have h: "ledger_ok (db (after_handler w r))"
    if "\<And>w'. r = Inr w' \<Longrightarrow> ledger_ok (db w')" for r
    using that assms by (cases r) (simp_all add: after_handler_def)
  have 1: "ledger_ok (db (after_handler w (process_loan_command c w)))"
    by (rule h) (simp add: loan_keeps_db assms)
  have 2: "ledger_ok (db (after_handler w (process_confirm_command e c w)))"
    by (rule h) (rule confirm_keeps_ledger_ok [OF assms])
  have 3: "ledger_ok (db (after_handler w (process_paid_command e c w)))"
    by (rule h) (rule paid_keeps_ledger_ok [OF assms])
  have 4: "ledger_ok (db (after_handler w (process_refund_command cfg e c w)))"
    by (rule h) (rule refund_keeps_ledger_ok [OF assms])
  have 5: "ledger_ok (db (after_handler w (process_stats_command c w)))"
    by (rule h) (simp add: stats_keeps_db assms)
  show ?thesis
    using assms 1 2 3 4 5
    by (simp add: comment_monitor_step_def Let_def split: option.splits)
qed

lemma reachable_ledger_ok: "reachable cfg w \<Longrightarrow> ledger_ok (db w)"
proof (induction rule: reachable.induct)
  case reachable_init
  show ?case by (simp add: init_world_def ledger_ok_empty)
next
  case (reachable_step w e c)
  then show ?case by (simp add: step_keeps_ledger_ok)
qed

section \<open>The statistics of a user\<close>

lemma stat_zero_ok:
  assumes "ledger_ok d"
  shows "stat unpaid_loans d u = 0" "stat unpaid_amount d u = 0"
  using ledger_ok_user [OF assms, of u]
  by (cases "users d u"; simp add: stat_def no_unpaid_def)+

lemma stat_unpaid_upsert:
  "stat unpaid_loans (upsert_lender u am t d) v = stat unpaid_loans d v"
  "stat unpaid_amount (upsert_lender u am t d) v = stat unpaid_amount d v"
  "stat unpaid_loans (upsert_borrower u am t d) v = stat unpaid_loans d v"
  "stat unpaid_amount (upsert_borrower u am t d) v = stat unpaid_amount d v"
  by (simp_all add: stat_def upsert_lender_def upsert_borrower_def split: option.splits)

lemma reachable_samples:
  "reachable sample_config world_confirmed"
  "reachable sample_config world_repaid"
  "reachable sample_config world_refunded"
  unfolding world_repaid_def world_refunded_def world_confirmed_def
  by (intro reachable.intros)+

text \<open>
  Claim C7. In every world reachable from the empty ledger by iterations of the comment
  stream loop, every field of every row of \<^verbatim>\<open>users\<close> is at least 0. Each decrement of
  the Refund handler (\<open>refund_lender\<close>, \<open>refund_borrower\<close>) and of the Paid handler
  (\<open>settle_unpaid\<close>, by the amount of a loan of the ledger) goes through \<^verbatim>\<open>GREATEST(..., 0)\<close>:
  applied to such a row it gives a row with every field at least 0, and a field that is 0
  stays 0.
\<close>

theorem stats_never_negative:
  assumes "reachable cfg w" and "users (db w) u = Some r"
  shows "0 \<le> loans_as_borrower r \<and> 0 \<le> loans_as_lender r \<and> 0 \<le> amount_borrowed r \<and>
         0 \<le> amount_lent r \<and> 0 \<le> total_repaid r \<and> 0 \<le> unpaid_loans r \<and>
         0 \<le> unpaid_amount r \<and>
         nonneg_stats (refund_lender (Decimal amount_text) t r) \<and>
         nonneg_stats (refund_borrower (Decimal amount_text) t r) \<and>
         (\<forall>l \<in> set (loans (db w)). nonneg_stats (settle_unpaid (amount l) t r)) \<and>
         (loans_as_lender r = 0 \<longrightarrow>
            loans_as_lender (refund_lender (Decimal amount_text) t r) = 0) \<and>
         (amount_lent r = 0 \<longrightarrow>
            amount_lent (refund_lender (Decimal amount_text) t r) = 0) \<and>
         (loans_as_borrower r = 0 \<longrightarrow>
            loans_as_borrower (refund_borrower (Decimal amount_text) t r) = 0) \<and>
         (amount_borrowed r = 0 \<longrightarrow>
            amount_borrowed (refund_borrower (Decimal amount_text) t r) = 0) \<and>
         (\<forall>l \<in> set (loans (db w)).
            (unpaid_loans r = 0 \<longrightarrow> unpaid_loans (settle_unpaid (amount l) t r) = 0) \<and>
            (unpaid_amount r = 0 \<longrightarrow> unpaid_amount (settle_unpaid (amount l) t r) = 0))"
proof -
  have ok: "ledger_ok (db w)"
    using assms(1) by (rule reachable_ledger_ok)
  have r: "nonneg_stats r" "no_unpaid r"
    using ledger_ok_user [OF ok assms(2)] by simp_all
  have am: "0 \<le> Decimal amount_text" by (rule Decimal_nonneg)
  have la: "0 \<le> amount l" if "l \<in> set (loans (db w))" for l
    using ok that by (rule ledger_ok_loan)
  have 1: "nonneg_stats (refund_lender (Decimal amount_text) t r)"
    using row_ok_refund_lender [OF r] by simp
  have 2: "nonneg_stats (refund_borrower (Decimal amount_text) t r)"
    using row_ok_refund_borrower [OF r] by simp
  have 3: "\<forall>l \<in> set (loans (db w)). nonneg_stats (settle_unpaid (amount l) t r)"
    using row_ok_settle_unpaid [OF la r] by simp
  have 4: "loans_as_lender r = 0 \<longrightarrow>
            loans_as_lender (refund_lender (Decimal amount_text) t r) = 0"
    "amount_lent r = 0 \<longrightarrow> amount_lent (refund_lender (Decimal amount_text) t r) = 0"
    using am by (simp_all add: refund_lender_def greatest_def)
  have 5: "loans_as_borrower r = 0 \<longrightarrow>
            loans_as_borrower (refund_borrower (Decimal amount_text) t r) = 0"
    "amount_borrowed r = 0 \<longrightarrow>
            amount_borrowed (refund_borrower (Decimal amount_text) t r) = 0"
    using am by (simp_all add: refund_borrower_def greatest_def)
  have 6: "\<forall>l \<in> set (loans (db w)).
            (unpaid_loans r = 0 \<longrightarrow> unpaid_loans (settle_unpaid (amount l) t r) = 0) \<and>
            (unpaid_amount r = 0 \<longrightarrow> unpaid_amount (settle_unpaid (amount l) t r) = 0)"
  proof (intro ballI)
    fix l assume "l \<in> set (loans (db w))"
    then have "0 \<le> amount l" by (rule la)
    then show "(unpaid_loans r = 0 \<longrightarrow> unpaid_loans (settle_unpaid (amount l) t r) = 0) \<and>
            (unpaid_amount r = 0 \<longrightarrow> unpaid_amount (settle_unpaid (amount l) t r) = 0)"
      by (simp add: settle_unpaid_def greatest_def)
  qed
  from r(1) have 0: "0 \<le> loans_as_borrower r \<and> 0 \<le> loans_as_lender r \<and>
      0 \<le> amount_borrowed r \<and> 0 \<le> amount_lent r \<and> 0 \<le> total_repaid r \<and>
      0 \<le> unpaid_loans r \<and> 0 \<le> unpaid_amount r"
    by (simp add: nonneg_stats_def)
  show ?thesis
    using 0 1 2 3 4 5 6 by blast
qed

theorem stats_never_negative_witness:
  "reachable sample_config world_refunded \<and>
   users (db world_refunded) ''alice'' = Some (zero_stats 200) \<and>
   loans_as_lender (zero_stats 200) = 0 \<and> amount_lent (zero_stats 200) = 0 \<and>
   unpaid_loans (zero_stats 200) = 0 \<and> unpaid_amount (zero_stats 200) = 0 \<and>
   loans (db world_refunded) \<noteq> [] \<and>
   loans_as_lender (refund_lender (Decimal (Decimal_Text 5000 2)) 300 (zero_stats 200)) = 0 \<and>
   amount_lent (refund_lender (Decimal (Decimal_Text 5000 2)) 300 (zero_stats 200)) = 0 \<and>
   loans_as_borrower (refund_borrower (Decimal (Decimal_Text 5000 2)) 300 (zero_stats 200)) = 0 \<and>
   amount_borrowed (refund_borrower (Decimal (Decimal_Text 5000 2)) 300 (zero_stats 200)) = 0 \<and>
   list_all
     (\<lambda>l. unpaid_loans (settle_unpaid (amount l) 300 (zero_stats 200)) = 0 \<and>
          unpaid_amount (settle_unpaid (amount l) 300 (zero_stats 200)) = 0)
     (loans (db world_refunded))"
proof -
  have h1: "reachable sample_config world_refunded"
    by (rule reachable_samples)
  have h2: "users (db world_refunded) ''alice'' = Some (zero_stats 200)"
    by (simp add: world_refunded_eval zero_stats_def)
  have z: "loans_as_lender (zero_stats 200) = 0" "amount_lent (zero_stats 200) = 0"
    "loans_as_borrower (zero_stats 200) = 0" "amount_borrowed (zero_stats 200) = 0"
    "unpaid_loans (zero_stats 200) = 0" "unpaid_amount (zero_stats 200) = 0"
    by (simp_all add: zero_stats_def)
  have n: "loans (db world_refunded) \<noteq> []"
    by (simp add: world_refunded_eval)
  from stats_never_negative [OF h1 h2, of "Decimal_Text 5000 2" 300]
  show ?thesis
    using h1 h2 n by (simp add: z list_all_iff)
qed

text \<open>
  Claim C10. In every reachable world the unpaid count and the unpaid amount of every user
  are 0, before and after any further comment. The two \<^verbatim>\<open>INSERT ... ON CONFLICT\<close>
  statements of the Confirm handler leave both fields of every user as they are (0 by
  default in a new row), and the decrement of the Paid handler, applied to a row of a
  reachable ledger with the amount of one of its loans, changes neither field.
\<close>

theorem unpaid_fields_stay_zero:
  assumes "reachable cfg w"
  shows "stat unpaid_loans (db w) u = 0 \<and> stat unpaid_amount (db w) u = 0 \<and>
         stat unpaid_loans (db (comment_monitor_step cfg e c w)) u = 0 \<and>
         stat unpaid_amount (db (comment_monitor_step cfg e c w)) u = 0 \<and>
         (\<forall>r. users (db w) u = Some r \<longrightarrow>
            (\<forall>l \<in> set (loans (db w)).
               unpaid_loans (settle_unpaid (amount l) t r) = unpaid_loans r \<and>
               unpaid_amount (settle_unpaid (amount l) t r) = unpaid_amount r)) \<and>
         stat unpaid_loans (upsert_lender v am t (db w)) u = stat unpaid_loans (db w) u \<and>
         stat unpaid_amount (upsert_lender v am t (db w)) u = stat unpaid_amount (db w) u \<and>
         stat unpaid_loans (upsert_borrower v am t (db w)) u = stat unpaid_loans (db w) u \<and>
         stat unpaid_amount (upsert_borrower v am t (db w)) u = stat unpaid_amount (db w) u"
proof -
  have ok: "ledger_ok (db w)"
    using assms by (rule reachable_ledger_ok)
  have ok': "ledger_ok (db (comment_monitor_step cfg e c w))"
    using ok by (rule step_keeps_ledger_ok)
  have noop: "unpaid_loans (settle_unpaid (amount l) t r) = unpaid_loans r \<and>
              unpaid_amount (settle_unpaid (amount l) t r) = unpaid_amount r"
    if "users (db w) u = Some r" and "l \<in> set (loans (db w))" for r l
  proof -
    have "no_unpaid r" using ledger_ok_user [OF ok that(1)] by simp
    moreover have "0 \<le> amount l" using ok that(2) by (rule ledger_ok_loan)
    ultimately show ?thesis
      by (simp add: no_unpaid_def settle_unpaid_def greatest_def)
  qed
  show ?thesis
    using stat_zero_ok [OF ok, of u] stat_zero_ok [OF ok', of u] noop
    by (simp add: stat_unpaid_upsert)
qed

theorem unpaid_fields_stay_zero_witness:
  "reachable sample_config world_repaid \<and>
   users (db world_repaid) ''bob'' \<noteq> None \<and> loans (db world_repaid) \<noteq> [] \<and>
   stat unpaid_loans (db world_repaid) ''bob'' = 0 \<and>
   stat unpaid_amount (db world_repaid) ''bob'' = 0 \<and>
   stat unpaid_loans (db (comment_monitor_step sample_config (at_time 300)
       (alice_paid ''1'' 5000 ''USD'') world_repaid)) ''bob'' = 0 \<and>
   stat unpaid_amount (db (comment_monitor_step sample_config (at_time 300)
       (alice_paid ''1'' 5000 ''USD'') world_repaid)) ''bob'' = 0"
proof -
  have h1: "reachable sample_config world_repaid"
    by (rule reachable_samples)
  have n: "users (db world_repaid) ''bob'' \<noteq> None" "loans (db world_repaid) \<noteq> []"
    by (simp_all add: world_repaid_eval)
  from unpaid_fields_stay_zero [OF h1, of "''bob''" "at_time 300" "alice_paid ''1'' 5000 ''USD''"]
  show ?thesis
    using h1 n by simp
qed

end
